theory Spec2Isabelle
  imports Main
begin

section \<open>Python values, exceptions and the world outside the program\<close>

text \<open>
  The repository is a set of Python scripts around third-party libraries and remote
  services. The embedding keeps the control flow of every function as it is written
  (every \<open>try\<close>/\<open>except\<close>, every \<open>raise\<close>, every \<open>return\<close>) and makes the outside
  world explicit: the file system, standard output and input, the process environment
  and the clock are fields of a \<open>world\<close> that every operation takes and returns; the
  third-party libraries and the remote services are records of functions that are
  parameters of the model.

  A Python \<open>str\<close> and a Python \<open>bytes\<close> are both a \<open>string\<close> here (a list of 8-bit
  characters, read as the code points below 256); \<open>.encode()\<close> and \<open>.decode()\<close> are the
  identity of the model. The symbols that the scripts print outside ASCII are written as
  their UTF-8 bytes.
\<close>

datatype exn_class =
    OSError | FileNotFoundError | InvalidToken | BinasciiError | JSONDecodeError
  | KeyError | TypeError | ValueError | ImportError | EOFError | AttributeError
  | IndexError | TaskFailedError | PlainException | PermissionError | UnicodeEncodeError

text \<open>
  An exception carries its class and the text that \<open>str(e)\<close> gives. The HTTP exception of
  the web framework carries a status code and a detail.
\<close>

datatype exn = Raised exn_class string | HTTPException nat string

definition digit_char :: "nat \<Rightarrow> char" where
  "digit_char d = char_of (48 + d)"

function show_nat :: "nat \<Rightarrow> string" where
  "show_nat n = (if n < 10 then [digit_char n] else show_nat (n div 10) @ [digit_char (n mod 10)])"
  by pat_completeness auto
termination
  by (relation "measure id") auto

declare show_nat.simps [simp del]

text \<open>
  \<open>str(e)\<close>. For the framework's HTTP exception it is the status code, a colon and the
  detail (the framework's \<open>__str__\<close>).
\<close>

fun str_exn :: "exn \<Rightarrow> string" where
  "str_exn (Raised c m) = m"
| "str_exn (HTTPException code detail) = show_nat code @ '': '' @ detail"

text \<open>A float is a dyadic rational: mantissa and exponent.\<close>

datatype pyfloat = PyFloat int int

text \<open>The values that \<open>json.loads\<close> can return. A dict is an association list.\<close>

datatype json =
    JNull | JBool bool | JInt int | JNum pyfloat | JStr string
  | JArr "json list" | JObj "(string \<times> json) list"

text \<open>
  The arguments and results that travel between the stage functions: \<open>None\<close>, a \<open>str\<close>
  or a \<open>pathlib.Path\<close>.
\<close>

datatype pyval = PNone | PStr string | PPath string

text \<open>What \<open>requests\<close> gives back: \<open>.ok\<close>, \<open>.text\<close>, \<open>.status_code\<close>, \<open>.json()\<close>, \<open>.content\<close>.\<close>

record response =
  resp_ok :: bool
  resp_text :: string
  resp_status :: nat
  resp_json :: "exn + json"
  resp_content :: string

text \<open>
  One entry of the trace that stand-in stage functions leave: the callee, its arguments
  and what it returned or raised. The functions of the repository never touch the trace.
\<close>

datatype call = Call string "pyval list" "exn + pyval"

text \<open>
  The world: the files with their content; the paths that may not be read, written,
  removed, created as a directory, or asked for their status; the lines printed so far
  and the texts that standard output takes; the lines waiting on standard input; the
  process environment; the clock and the formatted times; the next UUID; the log of HTTP
  requests, of sleeps, and of calls into the client libraries of remote services; what
  listing a directory gives; the trace of the stand-in stages.
\<close>

record world =
  files :: "string \<rightharpoonup> string"
  deny_read :: "string set"
  deny_write :: "string set"
  deny_unlink :: "string set"
  stdout :: "string list"
  stdin :: "string list"
  environ :: "string \<rightharpoonup> string"
  clock :: pyfloat
  deny_mkdir :: "string set"
  strftime :: "string \<Rightarrow> string"
  isoformat :: string
  uuid4 :: string
  http_log :: "string list"
  slept :: "nat list"
  dir_listing :: "string \<Rightarrow> exn + string list"
  mtime_iso :: "string \<Rightarrow> string"
  calls :: "call list"
  deny_stat :: "string set"
  stdout_accepts :: "string \<Rightarrow> bool"
  api_calls :: "string list"

text \<open>A computation either raises or returns, and leaves a world behind.\<close>

type_synonym 'a io = "world \<Rightarrow> (exn + 'a) \<times> world"

definition io_return :: "'a \<Rightarrow> 'a io" where
  "io_return x = (\<lambda>w. (Inr x, w))"

definition io_raise :: "exn \<Rightarrow> 'a io" where
  "io_raise e = (\<lambda>w. (Inl e, w))"

definition io_lift :: "exn + 'a \<Rightarrow> 'a io" where
  "io_lift r = (\<lambda>w. (r, w))"

definition io_bind :: "'a io \<Rightarrow> ('a \<Rightarrow> 'b io) \<Rightarrow> 'b io" where
  "io_bind m f = (\<lambda>w. case m w of (Inl e, w') \<Rightarrow> (Inl e, w') | (Inr x, w') \<Rightarrow> f x w')"

text \<open>\<open>try: body except Exception as e: handler\<close>. Every \<open>exn\<close> is an \<open>Exception\<close>.\<close>

definition try_except :: "'a io \<Rightarrow> (exn \<Rightarrow> 'a io) \<Rightarrow> 'a io" where
  "try_except body handler =
     (\<lambda>w. case body w of (Inl e, w') \<Rightarrow> handler e w' | (Inr x, w') \<Rightarrow> (Inr x, w'))"

subsection \<open>Strings\<close>

text \<open>\<open>str.isspace\<close> on the code points below 256.\<close>

definition py_isspace :: "char \<Rightarrow> bool" where
  "py_isspace c = (let n = (of_char c :: nat) in
      (9 \<le> n \<and> n \<le> 13) \<or> (28 \<le> n \<and> n \<le> 32) \<or> n = 133 \<or> n = 160)"

definition py_strip :: "string \<Rightarrow> string" where
  "py_strip s = rev (dropWhile py_isspace (rev (dropWhile py_isspace s)))"

text \<open>\<open>str.lower\<close> on the code points below 256.\<close>

definition lower_char :: "char \<Rightarrow> char" where
  "lower_char c = (let n = (of_char c :: nat) in
      if (65 \<le> n \<and> n \<le> 90) \<or> (192 \<le> n \<and> n \<le> 214) \<or> (216 \<le> n \<and> n \<le> 222) then char_of (n + 32) else c)"

definition py_lower :: "string \<Rightarrow> string" where
  "py_lower s = map lower_char s"

definition ok_mark :: string where
  "ok_mark = [CHR 0xE2, CHR 0x9C, CHR 0x85]"

definition cross_mark :: string where
  "cross_mark = [CHR 0xE2, CHR 0x9D, CHR 0x8C]"


subsection \<open>Operations of the world\<close>

text \<open>
  \<open>print(s)\<close>. Standard output may refuse a text: a stream whose encoding has no code for
  one of its characters raises \<open>UnicodeEncodeError\<close>, and nothing is written.
\<close>

definition py_print :: "string \<Rightarrow> unit io" where
  "py_print s = (\<lambda>w.
     if stdout_accepts w s then (Inr (), w\<lparr>stdout := stdout w @ [s]\<rparr>)
     else (Inl (Raised UnicodeEncodeError ''codec cannot encode character''), w))"

text \<open>
  \<open>Path.exists()\<close> asks the system for the status of the path. A missing path gives
  \<open>False\<close>; a path whose status may not be read (no search permission on a directory above
  it) raises \<open>PermissionError\<close>. \<open>Path.is_file()\<close> behaves the same way, and every path
  that the world holds is a file.
\<close>

definition path_exists :: "string \<Rightarrow> bool io" where
  "path_exists p = (\<lambda>w.
     if p \<in> deny_stat w then (Inl (Raised PermissionError ''Permission denied''), w)
     else (Inr (files w p \<noteq> None), w))"

text \<open>\<open>with open(p, 'r') as f: f.read()\<close>.\<close>

definition read_file :: "string \<Rightarrow> string io" where
  "read_file p = (\<lambda>w.
     if p \<in> deny_read w then (Inl (Raised OSError ''Permission denied''), w)
     else case files w p of
            None \<Rightarrow> (Inl (Raised FileNotFoundError ''No such file or directory''), w)
          | Some c \<Rightarrow> (Inr c, w))"

text \<open>\<open>with open(p, 'w') as f: f.write(c)\<close>: the file is created or replaced.\<close>

definition write_file :: "string \<Rightarrow> string \<Rightarrow> unit io" where
  "write_file p c = (\<lambda>w.
     if p \<in> deny_write w then (Inl (Raised OSError ''Permission denied''), w)
     else (Inr (), w\<lparr>files := (files w)(p \<mapsto> c)\<rparr>))"

text \<open>\<open>Path.unlink()\<close>.\<close>

definition unlink :: "string \<Rightarrow> unit io" where
  "unlink p = (\<lambda>w.
     if p \<in> deny_unlink w then (Inl (Raised OSError ''Permission denied''), w)
     else case files w p of
            None \<Rightarrow> (Inl (Raised FileNotFoundError ''No such file or directory''), w)
          | Some c \<Rightarrow> (Inr (), w\<lparr>files := (files w)(p := None)\<rparr>))"

definition getenv :: "string \<Rightarrow> string option io" where
  "getenv name = (\<lambda>w. (Inr (environ w name), w))"

definition time_time :: "pyfloat io" where
  "time_time = (\<lambda>w. (Inr (clock w), w))"



section \<open>Libraries, remote services and configuration\<close>

text \<open>
  Everything the repository delegates to: Fernet, base64 and json for the credential
  store; \<open>str()\<close> of a value that is not a string and the formatting of a float; the
  API keys that the stage modules read when they are imported and whether their client
  library could be imported; the remote calls (chat completion, speech synthesis, the
  video service over HTTP, the animation service); the directories derived from
  \<open>__file__\<close>. The answer of an HTTP request may depend on how many requests were made
  before it.
\<close>

record libs =
  fernet_encrypt :: "string \<Rightarrow> string \<Rightarrow> exn + string"
  fernet_decrypt :: "string \<Rightarrow> string \<Rightarrow> exn + string"
  b64encode :: "string \<Rightarrow> string"
  b64decode :: "string \<Rightarrow> exn + string"
  json_dumps :: "json \<Rightarrow> string"
  json_loads :: "string \<Rightarrow> exn + json"
  py_repr :: "json \<Rightarrow> string"
  format_1f :: "nat \<Rightarrow> nat \<Rightarrow> string"
  OPENAI_API_KEY :: "string option"
  openai_imported :: bool
  chat_completion :: "string \<Rightarrow> string \<Rightarrow> string \<Rightarrow> exn + string"
  ELEVENLABS_API_KEY :: "string option"
  elevenlabs_imported :: bool
  eleven_generate :: "string \<Rightarrow> string \<Rightarrow> string \<Rightarrow> exn + string list"
  PIKA_API_KEY :: "string option"
  http_post :: "nat \<Rightarrow> string \<Rightarrow> string \<Rightarrow> json \<Rightarrow> exn + response"
  http_get :: "nat \<Rightarrow> string \<Rightarrow> string option \<Rightarrow> exn + response"
  runway_client :: "string option \<Rightarrow> exn + unit"
  runway_create :: "string \<Rightarrow> string \<Rightarrow> pyval \<Rightarrow> string \<Rightarrow> nat \<Rightarrow> exn + string"
  runway_wait :: "string \<Rightarrow> exn + string list"
  stages_parent_dir :: string
  api_base_dir :: string

subsection \<open>More strings, paths and dicts\<close>

definition nl :: string where
  "nl = [CHR 0x0A]"

definition py_rstrip :: "string \<Rightarrow> string" where
  "py_rstrip s = rev (dropWhile py_isspace (rev s))"

text \<open>\<open>str.isalnum\<close> of one character, on the code points below 256.\<close>

definition py_isalnum :: "char \<Rightarrow> bool" where
  "py_isalnum c = (let n = (of_char c :: nat) in
      (48 \<le> n \<and> n \<le> 57) \<or> (65 \<le> n \<and> n \<le> 90) \<or> (97 \<le> n \<and> n \<le> 122)
      \<or> n = 170 \<or> n = 178 \<or> n = 179 \<or> n = 181 \<or> n = 185 \<or> n = 186
      \<or> (188 \<le> n \<and> n \<le> 190) \<or> (192 \<le> n \<and> n \<le> 214) \<or> (216 \<le> n \<and> n \<le> 246)
      \<or> 248 \<le> n)"

text \<open>\<open>s.split(c)\<close> for a separator of one character.\<close>

fun split_on :: "char \<Rightarrow> string \<Rightarrow> string list" where
  "split_on c [] = [[]]"
| "split_on c (x # xs) =
     (if x = c then [] # split_on c xs
      else (case split_on c xs of y # ys \<Rightarrow> (x # y) # ys | [] \<Rightarrow> [[x]]))"

text \<open>\<open>sep.join(xs)\<close>.\<close>

fun join_with :: "string \<Rightarrow> string list \<Rightarrow> string" where
  "join_with sep [] = []"
| "join_with sep [x] = x"
| "join_with sep (x # y # ys) = x @ sep @ join_with sep (y # ys)"

text \<open>The filter of the file names: \<open>c.isalnum() or c in (' ', '-', '_')\<close>.\<close>

definition safe_char :: "char \<Rightarrow> bool" where
  "safe_char c = (py_isalnum c \<or> c \<in> set [CHR '' '', CHR ''-'', CHR ''_''])"

text \<open>\<open>s.replace(' ', '_')\<close>.\<close>

definition spaces_to_underscores :: "string \<Rightarrow> string" where
  "spaces_to_underscores s = map (\<lambda>c. if c = CHR '' '' then CHR ''_'' else c) s"

text \<open>
  Paths are POSIX paths kept as the string they were built from. \<open>Path.name\<close> is the last
  component, \<open>Path.suffix\<close> and \<open>Path.stem\<close> split it at its last dot when that dot is
  neither its first nor its last character.
\<close>

definition path_name :: "string \<Rightarrow> string" where
  "path_name p =
     (case rev (filter (\<lambda>c. c \<noteq> [] \<and> c \<noteq> ''.'') (split_on CHR ''/'' p)) of
        [] \<Rightarrow> [] | n # ns \<Rightarrow> n)"

definition rfind_dot :: "string \<Rightarrow> nat option" where
  "rfind_dot name =
     (if CHR ''.'' \<in> set name
      then Some (length name - length (takeWhile (\<lambda>c. c \<noteq> CHR ''.'') (rev name)) - 1)
      else None)"

definition path_suffix :: "string \<Rightarrow> string" where
  "path_suffix p = (let name = path_name p in
     case rfind_dot name of
       None \<Rightarrow> []
     | Some i \<Rightarrow> if 0 < i \<and> i < length name - 1 then drop i name else [])"

definition path_stem :: "string \<Rightarrow> string" where
  "path_stem p = (let name = path_name p in
     case rfind_dot name of
       None \<Rightarrow> name
     | Some i \<Rightarrow> if 0 < i \<and> i < length name - 1 then take i name else name)"

text \<open>\<open>directory / filename\<close>.\<close>

definition path_join :: "string \<Rightarrow> string \<Rightarrow> string" where
  "path_join d f = (if f \<noteq> [] \<and> hd f = CHR ''/'' then f else d @ ''/'' @ f)"

text \<open>A stage argument inside an f-string.\<close>

fun str_pyval :: "pyval \<Rightarrow> string" where
  "str_pyval PNone = ''None''"
| "str_pyval (PStr s) = s"
| "str_pyval (PPath p) = p"

text \<open>\<open>d.get(key, default)\<close> on a dict whose keys are strings.\<close>

definition get_default :: "(string \<times> 'a) list \<Rightarrow> pyval \<Rightarrow> 'a \<Rightarrow> 'a" where
  "get_default d k dflt =
     (case k of
        PStr s \<Rightarrow> (case map_of d s of Some v \<Rightarrow> v | None \<Rightarrow> dflt)
      | _ \<Rightarrow> dflt)"

text \<open>Truth of a module-level API key: set and not empty.\<close>

definition truthy_env :: "string option \<Rightarrow> bool" where
  "truthy_env v = (case v of None \<Rightarrow> False | Some s \<Rightarrow> s \<noteq> [])"

text \<open>Truth of a JSON value in a condition.\<close>

definition truthy_json :: "json \<Rightarrow> bool" where
  "truthy_json v =
     (case v of JNull \<Rightarrow> False | JBool b \<Rightarrow> b | JInt i \<Rightarrow> i \<noteq> 0
      | JNum (PyFloat mant ex) \<Rightarrow> mant \<noteq> 0
      | JStr s \<Rightarrow> s \<noteq> [] | JArr xs \<Rightarrow> xs \<noteq> [] | JObj kvs \<Rightarrow> kvs \<noteq> [])"

text \<open>\<open>d[k]\<close>: a missing key and a value that is not a dict raise.\<close>

definition subscript :: "json \<Rightarrow> string \<Rightarrow> exn + json" where
  "subscript d k =
     (case d of
        JObj kvs \<Rightarrow> (case map_of kvs k of
                       Some v \<Rightarrow> Inr v
                     | None \<Rightarrow> Inl (Raised KeyError ([CHR 0x27] @ k @ [CHR 0x27])))
      | _ \<Rightarrow> Inl (Raised TypeError ''object is not subscriptable with a str''))"

text \<open>\<open>d.get(k)\<close>: only a dict has the method.\<close>

definition dict_get :: "json \<Rightarrow> string \<Rightarrow> exn + json option" where
  "dict_get d k =
     (case d of
        JObj kvs \<Rightarrow> Inr (map_of kvs k)
      | _ \<Rightarrow> Inl (Raised AttributeError ''object has no attribute get''))"

text \<open>
  \<open>k in d\<close>: a key of a dict, an element of a list, a substring of a string; anything
  else is not iterable.
\<close>

fun is_substring :: "string \<Rightarrow> string \<Rightarrow> bool" where
  "is_substring k [] = (k = [])"
| "is_substring k (x # xs) = (if take (length k) (x # xs) = k then True else is_substring k xs)"

definition json_contains :: "string \<Rightarrow> json \<Rightarrow> exn + bool" where
  "json_contains k d =
     (case d of
        JObj kvs \<Rightarrow> Inr (k \<in> fst ` set kvs)
      | JArr xs \<Rightarrow> Inr (JStr k \<in> set xs)
      | JStr s \<Rightarrow> Inr (is_substring k s)
      | _ \<Rightarrow> Inl (Raised TypeError ''argument is not iterable''))"

text \<open>A value inside an f-string.\<close>

definition py_str :: "libs \<Rightarrow> json \<Rightarrow> string" where
  "py_str lib v = (case v of JStr s \<Rightarrow> s | _ \<Rightarrow> py_repr lib v)"

definition sum_bind :: "exn + 'a \<Rightarrow> ('a \<Rightarrow> exn + 'b) \<Rightarrow> exn + 'b" where
  "sum_bind r f = (case r of Inl e \<Rightarrow> Inl e | Inr x \<Rightarrow> f x)"

text \<open>\<open>Path.mkdir(exist_ok=True)\<close>.\<close>

definition mkdir :: "string \<Rightarrow> unit io" where
  "mkdir p = (\<lambda>w.
     if p \<in> deny_mkdir w then (Inl (Raised OSError ''Permission denied''), w)
     else (Inr (), w))"

text \<open>\<open>datetime.now().strftime(fmt)\<close> and \<open>datetime.now().isoformat()\<close>.\<close>

definition now_strftime :: "string \<Rightarrow> string io" where
  "now_strftime fmt = (\<lambda>w. (Inr (strftime w fmt), w))"

definition now_isoformat :: "string io" where
  "now_isoformat = (\<lambda>w. (Inr (isoformat w), w))"

definition time_sleep :: "nat \<Rightarrow> unit io" where
  "time_sleep n = (\<lambda>w. (Inr (), w\<lparr>slept := slept w @ [n]\<rparr>))"

text \<open>
  \<open>requests.post\<close> and \<open>requests.get\<close>: the request is logged, the service answers.
  \<open>auth\<close> is the \<open>Authorization\<close> header, when the call passes headers.
\<close>

definition requests_post :: "libs \<Rightarrow> string \<Rightarrow> string \<Rightarrow> json \<Rightarrow> response io" where
  "requests_post lib url auth payload = (\<lambda>w.
     (http_post lib (length (http_log w)) url auth payload,
      w\<lparr>http_log := http_log w @ [''POST '' @ url]\<rparr>))"

definition requests_get :: "libs \<Rightarrow> string \<Rightarrow> string option \<Rightarrow> response io" where
  "requests_get lib url auth = (\<lambda>w.
     (http_get lib (length (http_log w)) url auth,
      w\<lparr>http_log := http_log w @ [''GET '' @ url]\<rparr>))"

text \<open>
  A call into a client library of a remote service (OpenAI, ElevenLabs, RunwayML): the
  call is logged under its name, the library answers.
\<close>

definition remote_call :: "string \<Rightarrow> exn + 'a \<Rightarrow> 'a io" where
  "remote_call name answer = (\<lambda>w. (answer, w\<lparr>api_calls := api_calls w @ [name]\<rparr>))"

section \<open>The credential store (Suites/Linkdin/chatgpt\_login.py)\<close>


text \<open>The fields of a \<open>SecureCredentialManager\<close>; \<open>cipher_suite\<close> is \<open>Fernet(key)\<close>.\<close>

record manager =
  key_file :: string
  credentials_file :: string
  cipher_key :: string

definition encrypt_credentials :: "libs \<Rightarrow> manager \<Rightarrow> json \<Rightarrow> exn + string" where
  "encrypt_credentials lib m credentials =
     (let json_data = json_dumps lib credentials in
      sum_bind (fernet_encrypt lib (cipher_key m) json_data) (\<lambda>encrypted_data.
      Inr (b64encode lib encrypted_data)))"

definition decrypt_credentials :: "libs \<Rightarrow> manager \<Rightarrow> string \<Rightarrow> exn + json" where
  "decrypt_credentials lib m encrypted_data =
     sum_bind (b64decode lib encrypted_data) (\<lambda>encrypted_bytes.
     sum_bind (fernet_decrypt lib (cipher_key m) encrypted_bytes) (\<lambda>decrypted_data.
     json_loads lib decrypted_data))"

text \<open>The dict literal of \<open>save_credentials\<close>.\<close>

definition credentials_dict :: "string \<Rightarrow> string \<Rightarrow> pyfloat \<Rightarrow> json" where
  "credentials_dict email password t =
     JObj [(''email'', JStr email), (''password'', JStr password), (''timestamp'', JNum t)]"

definition save_credentials :: "libs \<Rightarrow> manager \<Rightarrow> string \<Rightarrow> string \<Rightarrow> bool io" where
  "save_credentials lib m email password =
     try_except
       (io_bind time_time (\<lambda>t.
        let credentials = credentials_dict email password t in
        io_bind (io_lift (encrypt_credentials lib m credentials)) (\<lambda>encrypted_credentials.
        io_bind (write_file (credentials_file m) encrypted_credentials) (\<lambda>_.
        io_bind (py_print (ok_mark @ '' Credentials saved securely to '' @ credentials_file m)) (\<lambda>_.
        io_return True)))))
       (\<lambda>e. io_bind (py_print (cross_mark @ '' Failed to save credentials: '' @ str_exn e)) (\<lambda>_.
             io_return False))"

definition load_credentials :: "libs \<Rightarrow> manager \<Rightarrow> json option io" where
  "load_credentials lib m =
     io_bind (path_exists (credentials_file m)) (\<lambda>ex.
     if \<not> ex then io_return None
     else
       try_except
         (io_bind (read_file (credentials_file m)) (\<lambda>content.
          let encrypted_data = py_strip content in
          io_bind (io_lift (decrypt_credentials lib m encrypted_data)) (\<lambda>credentials.
          io_bind (io_lift (subscript credentials ''email'')) (\<lambda>email.
          io_bind (py_print (ok_mark @ '' Loaded credentials for: '' @ py_str lib email)) (\<lambda>_.
          io_return (Some credentials))))))
         (\<lambda>e. io_bind (py_print (cross_mark @ '' Failed to load credentials: '' @ str_exn e)) (\<lambda>_.
               io_return None)))"

definition clear_credentials :: "manager \<Rightarrow> bool io" where
  "clear_credentials m =
     try_except
       (io_bind (path_exists (credentials_file m)) (\<lambda>ex.
        io_bind (if ex then io_bind (unlink (credentials_file m)) (\<lambda>_.
                           py_print (ok_mark @ '' Credentials cleared''))
                 else io_return ()) (\<lambda>_.
        io_return True)))
       (\<lambda>e. io_bind (py_print (cross_mark @ '' Failed to clear credentials: '' @ str_exn e)) (\<lambda>_.
             io_return False))"



section \<open>The stage functions (Suites/Youtube)\<close>

subsection \<open>script\_gen.py\<close>

definition length_params :: "(string \<times> string \<times> string) list" where
  "length_params =
     [(''short'', (''2-3 minutes'', ''150-250'')),
      (''medium'', (''5-7 minutes'', ''400-600'')),
      (''long'', (''10-15 minutes'', ''800-1200''))]"

definition style_params :: "(string \<times> string) list" where
  "style_params =
     [(''educational'', ''educational, informative, clear explanations, step-by-step approach''),
      (''entertaining'', ''entertaining, engaging, humorous, captivating storytelling''),
      (''professional'', ''professional, formal, business-like, authoritative tone''),
      (''casual'', ''casual, conversational, friendly, relaxed tone'')]"

text \<open>The prompt; the first component of \<open>length_info\<close> is its duration, the second its word count.\<close>

definition script_prompt :: "string \<Rightarrow> string \<times> string \<Rightarrow> string \<Rightarrow> pyval \<Rightarrow> string" where
  "script_prompt topic length_info style_info style =
     ''Write a '' @ fst length_info @ '' script for a YouTube video.'' @ nl @ nl
     @ ''Topic: '' @ topic @ nl
     @ ''Style: '' @ style_info @ nl
     @ ''Target word count: '' @ snd length_info @ '' words'' @ nl @ nl
     @ ''Structure the script with:'' @ nl
     @ ''1. Hook (10-15% of content) - Grab attention immediately'' @ nl
     @ ''2. Introduction (15-20% of content) - Set context and expectations'' @ nl
     @ ''3. Main Content (60-70% of content) - Core information/entertainment'' @ nl
     @ ''4. Conclusion (10-15% of content) - Wrap up and call to action'' @ nl @ nl
     @ ''Make it engaging, well-paced, and suitable for '' @ str_pyval style @ '' content.'' @ nl
     @ ''Include natural speech patterns and transitions.'' @ nl
     @ ''Avoid jargon unless necessary for the topic.'' @ nl @ nl
     @ ''Format the output as a clean script with clear sections.''"

definition script_system_message :: string where
  "script_system_message =
     ''You are a professional script writer specializing in YouTube content creation.''"

text \<open>The \<open>try\<close> block of \<open>generate_script\<close>; \<open>length_key\<close> is its argument \<open>length\<close>.\<close>

definition generate_script_body ::
  "libs \<Rightarrow> string \<Rightarrow> string \<Rightarrow> pyval \<Rightarrow> string \<times> string \<Rightarrow> string \<Rightarrow> string io" where
  "generate_script_body lib topic length_key style length_info prompt =
     io_bind (remote_call ''openai.ChatCompletion.create''
                (chat_completion lib ''gpt-4o-mini'' script_system_message prompt)) (\<lambda>content.
     let script_content = py_strip content in
     io_bind (now_strftime ''%Y%m%d_%H%M%S'') (\<lambda>timestamp.
     let safe_topic = take 30 (spaces_to_underscores (py_rstrip (filter safe_char topic)));
         filename = ''script_'' @ safe_topic @ ''_'' @ length_key @ ''_'' @ timestamp @ ''.txt'';
         output_dir = path_join (stages_parent_dir lib) ''output'' in
     io_bind (mkdir output_dir) (\<lambda>_.
     let script_path = path_join output_dir filename in
     io_bind (now_strftime ''%Y-%m-%d %H:%M:%S'') (\<lambda>generated.
     io_bind (write_file script_path
                (''# Script: '' @ topic @ nl
                 @ ''# Generated: '' @ generated @ nl
                 @ ''# Length: '' @ fst length_info @ nl
                 @ ''# Style: '' @ str_pyval style @ nl
                 @ replicate 50 CHR ''='' @ nl @ nl
                 @ script_content)) (\<lambda>_.
     io_bind (py_print (''[SCRIPT] Generated script saved to: '' @ script_path)) (\<lambda>_.
     io_return script_path))))))"

definition generate_script :: "libs \<Rightarrow> string \<Rightarrow> string \<Rightarrow> pyval \<Rightarrow> string io" where
  "generate_script lib topic length_key style =
     (if \<not> truthy_env (OPENAI_API_KEY lib) then
        io_raise (Raised ValueError
          ''OpenAI API key not found. Please set OPENAI_API_KEY in config.py or environment variables.'')
      else if \<not> openai_imported lib then
        io_raise (Raised ImportError
          ''OpenAI library not installed. Please install it with: pip install openai'')
      else
        let length_info = get_default length_params (PStr length_key) (''5-7 minutes'', ''400-600'');
            style_info = get_default style_params style
               ''educational, informative, clear explanations, step-by-step approach'';
            prompt = script_prompt topic length_info style_info style in
        try_except
          (generate_script_body lib topic length_key style length_info prompt)
          (\<lambda>e. io_raise (Raised PlainException (''Failed to generate script: '' @ str_exn e))))"

text \<open>\<open>script_gen.run\<close>.\<close>

definition script_gen_run :: "libs \<Rightarrow> string \<Rightarrow> string io" where
  "script_gen_run lib theme = generate_script lib theme ''medium'' (PStr ''entertaining'')"

subsection \<open>voice\_gen.py\<close>

definition voice_ids :: "(string \<times> string) list" where
  "voice_ids =
     [(''male'', ''21m00Tcm4TlvDq8ikWAM''),
      (''female'', ''21m00Tcm4TlvDq8ikWAM''),
      (''neutral'', ''21m00Tcm4TlvDq8ikWAM'')]"

text \<open>
  The \<open>try\<close> block of \<open>generate_voice\<close>. The speed looked up before it is never used.
\<close>

definition generate_voice_body :: "libs \<Rightarrow> string \<Rightarrow> string \<Rightarrow> string \<Rightarrow> string io" where
  "generate_voice_body lib txt voice_type voice_id =
     io_bind (remote_call ''elevenlabs.generate''
                (eleven_generate lib txt voice_id ''eleven_multilingual_v2'')) (\<lambda>audio.
     io_bind (now_strftime ''%Y%m%d_%H%M%S'') (\<lambda>timestamp.
     let safe_text = take 20 (spaces_to_underscores (py_rstrip (filter safe_char (take 30 txt))));
         filename = ''voice_'' @ safe_text @ ''_'' @ voice_type @ ''_'' @ timestamp @ ''.mp3'';
         output_dir = path_join (stages_parent_dir lib) ''output'' in
     io_bind (mkdir output_dir) (\<lambda>_.
     let audio_path = path_join output_dir filename in
     io_bind (write_file audio_path (concat audio)) (\<lambda>_.
     io_bind (py_print (''[VOICE] Generated voice saved to: '' @ audio_path)) (\<lambda>_.
     io_return audio_path)))))"

definition generate_voice :: "libs \<Rightarrow> string \<Rightarrow> string \<Rightarrow> string \<Rightarrow> string io" where
  "generate_voice lib txt voice_type speed =
     (if \<not> truthy_env (ELEVENLABS_API_KEY lib) then
        io_raise (Raised ValueError
          ''ElevenLabs API key not found. Please set ELEVENLABS_API_KEY in config.py or environment variables.'')
      else if \<not> elevenlabs_imported lib then
        io_raise (Raised ImportError
          ''ElevenLabs library not installed. Please install it with: pip install elevenlabs'')
      else
        let voice_id = get_default voice_ids (PStr voice_type) ''21m00Tcm4TlvDq8ikWAM'' in
        try_except
          (generate_voice_body lib txt voice_type voice_id)
          (\<lambda>e. io_raise (Raised PlainException (''Failed to generate voice: '' @ str_exn e))))"

definition generate_voice_from_file :: "libs \<Rightarrow> string \<Rightarrow> string io" where
  "generate_voice_from_file lib script_file =
     io_bind (path_exists script_file) (\<lambda>ex.
     if \<not> ex then
       io_raise (Raised FileNotFoundError (''Script file not found: '' @ script_file))
     else
       io_bind (try_except (read_file script_file)
                  (\<lambda>e. io_raise (Raised PlainException
                         (''Failed to read script file: '' @ str_exn e)))) (\<lambda>script_text.
       generate_voice lib script_text ''female'' ''normal''))"

text \<open>\<open>voice_gen.run\<close>: a \<open>str\<close> becomes a path; \<open>None\<close> has no \<open>exists\<close>.\<close>

definition voice_gen_run :: "libs \<Rightarrow> pyval \<Rightarrow> string io" where
  "voice_gen_run lib script_file =
     (case script_file of
        PStr s \<Rightarrow> generate_voice_from_file lib s
      | PPath p \<Rightarrow> generate_voice_from_file lib p
      | PNone \<Rightarrow> io_raise (Raised AttributeError ''NoneType object has no attribute exists''))"

subsection \<open>animation\_gen.py\<close>

text \<open>\<open>try: body except TaskFailedError as e: handler\<close>: any other exception goes through.\<close>

definition try_except_task_failed :: "'a io \<Rightarrow> (string \<Rightarrow> 'a io) \<Rightarrow> 'a io" where
  "try_except_task_failed body handler =
     (\<lambda>w. case body w of
            (Inl (Raised TaskFailedError details), w') \<Rightarrow> handler details w'
          | (Inl e, w') \<Rightarrow> (Inl e, w')
          | (Inr x, w') \<Rightarrow> (Inr x, w'))"

text \<open>\<open>output[0]\<close>.\<close>

definition first_output :: "string list \<Rightarrow> exn + string" where
  "first_output output =
     (case output of [] \<Rightarrow> Inl (Raised IndexError ''list index out of range'') | x # xs \<Rightarrow> Inr x)"

text \<open>
  \<open>animation_gen.run\<close> with its defaults \<open>duration=5\<close>, \<open>prompt_image=None\<close>,
  \<open>ratio="1280:720"\<close>, \<open>model="gen4_turbo"\<close>.
\<close>

definition animation_gen_run :: "libs \<Rightarrow> pyval \<Rightarrow> pyval io" where
  "animation_gen_run lib prompt_text =
     io_bind (getenv ''RUNWAYML_API_SECRET'') (\<lambda>api_key.
     io_bind (io_lift (runway_client lib api_key)) (\<lambda>_.
     io_bind (remote_call ''image_to_video.create''
                (runway_create lib ''gen4_turbo'' [] prompt_text ''1280:720'' 5)) (\<lambda>task.
     try_except_task_failed
       (io_bind (remote_call ''wait_for_task_output'' (runway_wait lib task)) (\<lambda>output.
        io_bind (io_lift (first_output output)) (\<lambda>url.
        io_bind (py_print (''Video ready: '' @ url)) (\<lambda>_.
        io_return (PStr url)))))
       (\<lambda>details. io_bind (py_print (''Generation failed: '' @ details)) (\<lambda>_.
                   io_return PNone)))))"


subsection \<open>video\_edit.py\<close>

definition style_prompts :: "(string \<times> string) list" where
  "style_prompts =
     [(''modern'', ''modern, sleek, contemporary design, clean lines, professional''),
      (''minimal'', ''minimalist, simple, clean, uncluttered, elegant''),
      (''dynamic'', ''dynamic, energetic, vibrant, fast-paced, engaging''),
      (''elegant'', ''elegant, sophisticated, refined, polished, high-quality'')]"

definition resolution_params :: "(string \<times> nat \<times> nat) list" where
  "resolution_params =
     [(''720p'', (1280, 720)), (''1080p'', (1920, 1080)), (''4k'', (3840, 2160))]"

definition clapper_mark :: string where
  "clapper_mark = [CHR 0xF0, CHR 0x9F, CHR 0x8E, CHR 0xAC]"

definition hourglass_mark :: string where
  "hourglass_mark = [CHR 0xE2, CHR 0x8F, CHR 0xB3]"

definition down_mark :: string where
  "down_mark = [CHR 0xE2, CHR 0xAC, CHR 0x87]"

definition party_mark :: string where
  "party_mark = [CHR 0xF0, CHR 0x9F, CHR 0x8E, CHR 0x89]"

definition max_attempts :: nat where
  "max_attempts = 60"

text \<open>How one pass through the body of the \<open>while\<close> loop ends, when it does not raise.\<close>

datatype 'a loop_step = Break 'a | Continue

text \<open>
  The body of the poll loop up to and including \<open>time.sleep(5)\<close>; the loop function
  below does \<open>attempts += 1\<close>.
\<close>

definition poll_once :: "libs \<Rightarrow> string \<Rightarrow> string option \<Rightarrow> json loop_step io" where
  "poll_once lib status_url auth =
     io_bind (requests_get lib status_url auth) (\<lambda>status_resp.
     if \<not> resp_ok status_resp then
       io_raise (Raised PlainException
         (''Failed to check video status: '' @ resp_text status_resp))
     else
       io_bind (io_lift (resp_json status_resp)) (\<lambda>status_data.
       io_bind (io_lift (dict_get status_data ''status'')) (\<lambda>st.
       if st = Some (JStr ''completed'') then
         io_bind (io_lift (dict_get status_data ''video'')) (\<lambda>video_url.
         case video_url of
           Some v \<Rightarrow>
             if truthy_json v then
               io_bind (py_print (ok_mark @ '' Video ready!'')) (\<lambda>_. io_return (Break v))
             else io_raise (Raised PlainException ''Video completed but no URL provided'')
         | None \<Rightarrow> io_raise (Raised PlainException ''Video completed but no URL provided''))
       else if st = Some (JStr ''failed'') then
         io_raise (Raised PlainException ''Video generation failed'')
       else
         io_bind (time_sleep 5) (\<lambda>_. io_return Continue))))"

text \<open>
  \<open>while attempts < max_attempts: ...\<close>, started with \<open>attempts = 0\<close>. The result is
  \<open>video_url\<close> after the loop: \<open>None\<close> when the loop ran out of attempts.
\<close>

function poll_loop :: "libs \<Rightarrow> string \<Rightarrow> string option \<Rightarrow> nat \<Rightarrow> json option io" where
  "poll_loop lib status_url auth attempts w =
     (if attempts < max_attempts then
        (case poll_once lib status_url auth w of
           (Inl e, w') \<Rightarrow> (Inl e, w')
         | (Inr (Break video_url), w') \<Rightarrow> (Inr (Some video_url), w')
         | (Inr Continue, w') \<Rightarrow> poll_loop lib status_url auth (attempts + 1) w')
      else (Inr None, w))"
  by pat_completeness auto
termination
  by (relation "measure (\<lambda>(lib, status_url, auth, attempts, w). max_attempts - attempts)") auto

declare poll_loop.simps [simp del]

text \<open>
  An answer to a status request after which the loop goes on: the request succeeded, the
  body is a JSON object, and its \<open>status\<close> is neither \<open>completed\<close> nor \<open>failed\<close>.
\<close>

definition still_rendering :: "exn + response \<Rightarrow> bool" where
  "still_rendering r =
     (case r of
        Inl e \<Rightarrow> False
      | Inr resp \<Rightarrow>
          resp_ok resp \<and>
          (case resp_json resp of
             Inr (JObj kvs) \<Rightarrow> map_of kvs ''status'' \<noteq> Some (JStr ''completed'')
                               \<and> map_of kvs ''status'' \<noteq> Some (JStr ''failed'')
           | _ \<Rightarrow> False))"

text \<open>\<open>requests.get(video_url)\<close>: the URL is whatever the service put under \<open>video\<close>.\<close>

definition requests_get_value :: "libs \<Rightarrow> json \<Rightarrow> response io" where
  "requests_get_value lib url =
     (case url of
        JStr s \<Rightarrow> requests_get lib s None
      | _ \<Rightarrow> io_raise (Raised ValueError ''Invalid URL''))"

text \<open>The last \<open>try\<close> block of \<open>create_video\<close>, after the loop.\<close>

definition download_video ::
  "libs \<Rightarrow> string \<Rightarrow> pyval \<Rightarrow> string \<Rightarrow> json option \<Rightarrow> string io" where
  "download_video lib script_path style resolution video_url =
     (case video_url of
        None \<Rightarrow> io_raise (Raised PlainException ''Video generation timed out'')
      | Some url \<Rightarrow>
        if \<not> truthy_json url then io_raise (Raised PlainException ''Video generation timed out'')
        else
          io_bind (py_print (down_mark @ '' Downloading video...'')) (\<lambda>_.
          io_bind (requests_get_value lib url) (\<lambda>video_resp.
          if \<not> resp_ok video_resp then
            io_raise (Raised PlainException
              (''Failed to download video: '' @ show_nat (resp_status video_resp)))
          else
            io_bind (now_strftime ''%Y%m%d_%H%M%S'') (\<lambda>timestamp.
            let script_name = path_stem script_path;
                filename = ''video_'' @ script_name @ ''_'' @ str_pyval style @ ''_'' @ resolution
                           @ ''_'' @ timestamp @ ''.mp4'';
                output_dir = path_join (stages_parent_dir lib) ''output'' in
            io_bind (mkdir output_dir) (\<lambda>_.
            let video_path = path_join output_dir filename in
            io_bind (write_file video_path (resp_content video_resp)) (\<lambda>_.
            io_bind (py_print (party_mark @ '' Video saved as '' @ video_path)) (\<lambda>_.
            io_return video_path)))))))"

text \<open>The \<open>try\<close> block of \<open>create_video\<close>.\<close>

definition create_video_body ::
  "libs \<Rightarrow> string \<Rightarrow> pyval \<Rightarrow> string \<Rightarrow> nat \<times> nat \<Rightarrow> string \<Rightarrow> string io" where
  "create_video_body lib script_path style resolution res_params animation_prompt =
     (let create_url = ''https://api.pika.art/v1/video.create'';
          auth = ''Bearer '' @ (case PIKA_API_KEY lib of Some k \<Rightarrow> k | None \<Rightarrow> ''None'');
          payload = JObj [(''prompt'', JStr animation_prompt),
                          (''aspect_ratio'', JStr (show_nat (fst res_params) @ '':''
                                                  @ show_nat (snd res_params))),
                          (''fps'', JInt 24),
                          (''duration'', JInt 10)] in
      io_bind (py_print (clapper_mark @ '' Sending request to Pika Labs...'')) (\<lambda>_.
      io_bind (requests_post lib create_url auth payload) (\<lambda>resp.
      if \<not> resp_ok resp then
        io_raise (Raised PlainException (''Failed to create video job: '' @ resp_text resp))
      else
        io_bind (io_lift (resp_json resp)) (\<lambda>data.
        io_bind (io_lift (json_contains ''id'' data)) (\<lambda>has_id.
        if \<not> has_id then
          io_raise (Raised PlainException
            (''Invalid response from Pika Labs: '' @ py_str lib data))
        else
          io_bind (io_lift (subscript data ''id'')) (\<lambda>video_id.
          io_bind (py_print (ok_mark @ '' Video job created with ID: '' @ py_str lib video_id)) (\<lambda>_.
          let status_url = ''https://api.pika.art/v1/video.get?id='' @ py_str lib video_id in
          io_bind (py_print (hourglass_mark @ '' Waiting for Pika Labs to finish rendering...'')) (\<lambda>_.
          io_bind (poll_loop lib status_url (Some auth) 0) (\<lambda>video_url.
          download_video lib script_path style resolution video_url)))))))))"

definition create_video :: "libs \<Rightarrow> string \<Rightarrow> pyval \<Rightarrow> string \<Rightarrow> string io" where
  "create_video lib script_path style resolution =
     (if \<not> truthy_env (PIKA_API_KEY lib) then
        io_raise (Raised ValueError
          ''Pika Labs API key not found. Please set PIKA_API_KEY in config.py or environment variables.'')
      else
        io_bind (path_exists script_path) (\<lambda>ex.
        if \<not> ex then
          io_raise (Raised FileNotFoundError (''Script file not found: '' @ script_path))
        else
          io_bind (try_except (read_file script_path)
                     (\<lambda>e. io_raise (Raised PlainException
                            (''Failed to read script file: '' @ str_exn e)))) (\<lambda>script_content.
          let style_prompt = get_default style_prompts style
                 ''modern, sleek, contemporary design, clean lines, professional'';
              res_params = get_default resolution_params (PStr resolution) (1920, 1080);
              script_lines = take 5 (split_on CHR 0x0A script_content);
              script_summary = py_strip (join_with '' '' script_lines);
              animation_prompt = ''A '' @ style_prompt @ '' animated video about: ''
                 @ take 200 script_summary
                 @ ''... Colorful, vibrant, engaging visuals that match the content.'' in
          try_except
            (create_video_body lib script_path style resolution res_params animation_prompt)
            (\<lambda>e. io_raise (Raised PlainException (''Failed to create video: '' @ str_exn e))))))"

text \<open>\<open>video_edit.run(script_file=None, style="modern", resolution="1080p")\<close>.\<close>

definition video_edit_run :: "libs \<Rightarrow> pyval \<Rightarrow> pyval \<Rightarrow> string \<Rightarrow> string io" where
  "video_edit_run lib script_file style resolution =
     io_bind
       (case script_file of
          PNone \<Rightarrow>
            (let output_dir = path_join (stages_parent_dir lib) ''output'';
                 default_script = path_join output_dir ''default_script.txt'' in
             io_bind (path_exists default_script) (\<lambda>ex.
             if \<not> ex then
               io_bind (mkdir output_dir) (\<lambda>_.
               io_bind (write_file default_script
                          ''This is a default script for video generation.'') (\<lambda>_.
               io_return default_script))
             else io_return default_script))
        | PStr s \<Rightarrow> io_return s
        | PPath p \<Rightarrow> io_return p)
       (\<lambda>script_path. create_video lib script_path style resolution)"

section \<open>The pipeline (pipeline.py)\<close>

text \<open>
  \<open>main\<close> calls the \<open>run\<close> function of five modules. The functions are what the names
  \<open>script_gen.run\<close>, ..., \<open>upload_youtube.run\<close> are bound to when \<open>main\<close> runs; each
  takes its positional arguments and returns a value or raises.
\<close>

record stages =
  script_gen_stage :: "pyval list \<Rightarrow> pyval io"
  voice_gen_stage :: "pyval list \<Rightarrow> pyval io"
  animation_gen_stage :: "pyval list \<Rightarrow> pyval io"
  video_edit_stage :: "pyval list \<Rightarrow> pyval io"
  upload_youtube_stage :: "pyval list \<Rightarrow> pyval io"

definition pipeline_main :: "stages \<Rightarrow> unit io" where
  "pipeline_main st =
     io_bind (script_gen_stage st [PStr ''motivation'']) (\<lambda>script_file.
     io_bind (voice_gen_stage st [script_file]) (\<lambda>audio_file.
     io_bind (animation_gen_stage st [script_file]) (\<lambda>video_file.
     io_bind (video_edit_stage st [video_file, audio_file]) (\<lambda>final_video.
     io_bind (upload_youtube_stage st [final_video]) (\<lambda>_.
     io_return ())))))"

text \<open>A call with a number of arguments that the function does not take.\<close>

definition arity_error :: "'a io" where
  "arity_error = io_raise (Raised TypeError ''wrong number of positional arguments'')"

definition io_map :: "('a \<Rightarrow> 'b) \<Rightarrow> 'a io \<Rightarrow> 'b io" where
  "io_map f m = io_bind m (\<lambda>x. io_return (f x))"

text \<open>
  The stage functions of the repository behind those names. \<open>script_gen.run\<close> is called
  with the keyword \<open>theme\<close>. The module \<open>upload_youtube\<close> is not part of the sources and
  stays a parameter.
\<close>

definition repo_stages :: "libs \<Rightarrow> (pyval list \<Rightarrow> pyval io) \<Rightarrow> stages" where
  "repo_stages lib upload_youtube_run = \<lparr>
     script_gen_stage = (\<lambda>args. case args of
         [PStr theme] \<Rightarrow> io_map PPath (script_gen_run lib theme)
       | _ \<Rightarrow> arity_error),
     voice_gen_stage = (\<lambda>args. case args of
         [script_file] \<Rightarrow> io_map PPath (voice_gen_run lib script_file)
       | _ \<Rightarrow> arity_error),
     animation_gen_stage = (\<lambda>args. case args of
         [prompt_text] \<Rightarrow> animation_gen_run lib prompt_text
       | _ \<Rightarrow> arity_error),
     video_edit_stage = (\<lambda>args. case args of
         [script_file, style] \<Rightarrow> io_map PPath (video_edit_run lib script_file style ''1080p'')
       | _ \<Rightarrow> arity_error),
     upload_youtube_stage = upload_youtube_run \<rparr>"


text \<open>
  Stand-ins for the five stage functions, to observe \<open>main\<close> from outside: each one
  appends its call to the trace and then returns or raises what its oracle says for the
  arguments it got.
\<close>

definition stub_stage :: "string \<Rightarrow> (pyval list \<Rightarrow> exn + pyval) \<Rightarrow> pyval list \<Rightarrow> pyval io" where
  "stub_stage name oracle args =
     (\<lambda>w. (oracle args, w\<lparr>calls := calls w @ [Call name args (oracle args)]\<rparr>))"

definition stub_stages ::
  "(pyval list \<Rightarrow> exn + pyval) \<Rightarrow> (pyval list \<Rightarrow> exn + pyval) \<Rightarrow> (pyval list \<Rightarrow> exn + pyval)
   \<Rightarrow> (pyval list \<Rightarrow> exn + pyval) \<Rightarrow> (pyval list \<Rightarrow> exn + pyval) \<Rightarrow> stages" where
  "stub_stages r1 r2 r3 r4 r5 = \<lparr>
     script_gen_stage = stub_stage ''script_gen.run'' r1,
     voice_gen_stage = stub_stage ''voice_gen.run'' r2,
     animation_gen_stage = stub_stage ''animation_gen.run'' r3,
     video_edit_stage = stub_stage ''video_edit.run'' r4,
     upload_youtube_stage = stub_stage ''upload_youtube.run'' r5 \<rparr>"

text \<open>
  A trace in which every call that returned hands its result to the call after it: the
  result is one of the next call's arguments.
\<close>

fun chained :: "call list \<Rightarrow> bool" where
  "chained (Call n1 args1 r1 # Call n2 args2 r2 # rest) =
     ((case r1 of Inl e \<Rightarrow> False | Inr v \<Rightarrow> v \<in> set args2) \<and> chained (Call n2 args2 r2 # rest))"
| "chained cs = True"

section \<open>The HTTP server (api\_server.py)\<close>

text \<open>
  The request models. A request that does not fit its model never reaches the handler:
  the framework answers it before.
\<close>

record script_request =
  topic :: string
  length_field :: string
  style_field :: pyval

record voice_request =
  text_field :: string
  voice_type_field :: string
  speed_field :: string

text \<open>An \<open>UploadFile\<close>: its \<open>filename\<close> and what \<open>file.read()\<close> gives.\<close>

record upload_file =
  filename :: "string option"
  file_bytes :: string

text \<open>\<open>APIResponse\<close>.\<close>

record api_response =
  status :: string
  message :: string
  data :: "json option"

definition OUTPUT_DIR :: "libs \<Rightarrow> string" where
  "OUTPUT_DIR lib = path_join (api_base_dir lib) ''output''"

definition FRONTEND_DIR :: "libs \<Rightarrow> string" where
  "FRONTEND_DIR lib = path_join (api_base_dir lib) ''frontend''"

definition generate_unique_filename :: "string \<Rightarrow> string \<Rightarrow> string io" where
  "generate_unique_filename prefix extension =
     io_bind (now_strftime ''%Y%m%d_%H%M%S'') (\<lambda>timestamp.
     io_bind (\<lambda>w. (Inr (take 8 (uuid4 w)), w)) (\<lambda>unique_id.
     io_return (prefix @ ''_'' @ timestamp @ ''_'' @ unique_id @ ''.'' @ extension)))"

definition save_uploaded_file :: "upload_file \<Rightarrow> string \<Rightarrow> string io" where
  "save_uploaded_file upload directory =
     (case filename upload of
        None \<Rightarrow> io_raise (Raised AttributeError ''NoneType object has no attribute split'')
      | Some name \<Rightarrow>
          io_bind (generate_unique_filename ''upload'' (last (split_on CHR ''.'' name))) (\<lambda>fname.
          let file_path = path_join directory fname in
          io_bind (write_file file_path (file_bytes upload)) (\<lambda>_.
          io_return file_path)))"

definition generate_script_endpoint :: "libs \<Rightarrow> script_request \<Rightarrow> api_response io" where
  "generate_script_endpoint lib request =
     try_except
       (if py_strip (topic request) = [] then
          io_raise (HTTPException 400 ''Topic cannot be empty'')
        else
          io_bind (generate_script lib (topic request) (length_field request)
                     (style_field request)) (\<lambda>script_path.
          let relative_path = ''/output/'' @ path_name script_path in
          io_bind (try_except (read_file script_path)
                     (\<lambda>e. io_return (''Script generated but content could not be read: ''
                                      @ str_exn e))) (\<lambda>script_content.
          io_return \<lparr>status = ''success'',
                     message = ''Script generated successfully'',
                     data = Some (JObj [(''script_path'', JStr relative_path),
                                        (''script_content'', JStr script_content),
                                        (''filename'', JStr (path_name script_path))])\<rparr>)))
       (\<lambda>e. io_raise (HTTPException 500 (''Failed to generate script: '' @ str_exn e)))"

definition generate_voice_endpoint :: "libs \<Rightarrow> voice_request \<Rightarrow> api_response io" where
  "generate_voice_endpoint lib request =
     try_except
       (if py_strip (text_field request) = [] then
          io_raise (HTTPException 400 ''Text cannot be empty'')
        else if length (text_field request) > 5000 then
          io_raise (HTTPException 400 ''Text too long (max 5000 characters)'')
        else
          io_bind (generate_voice lib (text_field request) (voice_type_field request)
                     (speed_field request)) (\<lambda>voice_path.
          let relative_path = ''/output/'' @ path_name voice_path in
          io_return \<lparr>status = ''success'',
                     message = ''Voice generated successfully'',
                     data = Some (JObj [(''voice_path'', JStr relative_path),
                                        (''filename'', JStr (path_name voice_path)),
                                        (''duration'', JStr ''Unknown'')])\<rparr>))
       (\<lambda>e. io_raise (HTTPException 500 (''Failed to generate voice: '' @ str_exn e)))"

definition allowed_extensions :: "string list" where
  "allowed_extensions = [''.txt'', ''.md'']"

text \<open>The two checks at the head of both upload handlers; the result is the file name.\<close>

definition validate_upload :: "upload_file \<Rightarrow> string io" where
  "validate_upload script_file =
     (case filename script_file of
        None \<Rightarrow> io_raise (HTTPException 400 ''No file provided'')
      | Some name \<Rightarrow>
          if name = [] then io_raise (HTTPException 400 ''No file provided'')
          else
            let file_extension = py_lower (path_suffix name) in
            if file_extension \<notin> set allowed_extensions then
              io_raise (HTTPException 400
                (''Invalid file type. Allowed: '' @ join_with '', '' allowed_extensions))
            else io_return name)"

text \<open>\<open>video_path.stat().st_size if video_path.exists() else 0\<close>.\<close>

definition size_or_zero :: "string \<Rightarrow> nat io" where
  "size_or_zero p =
     io_bind (path_exists p) (\<lambda>ex.
     if ex then (\<lambda>w. (Inr (case files w p of None \<Rightarrow> 0 | Some c \<Rightarrow> length c), w))
     else io_return 0)"

definition create_video_endpoint ::
  "libs \<Rightarrow> upload_file \<Rightarrow> string \<Rightarrow> string \<Rightarrow> api_response io" where
  "create_video_endpoint lib script_file style resolution =
     try_except
       (io_bind (validate_upload script_file) (\<lambda>_.
        io_bind (save_uploaded_file script_file (OUTPUT_DIR lib)) (\<lambda>script_path.
        io_bind (create_video lib script_path (PStr style) resolution) (\<lambda>video_path.
        let relative_path = ''/output/'' @ path_name video_path in
        io_bind (size_or_zero video_path) (\<lambda>file_size.
        io_return \<lparr>status = ''success'',
                   message = ''Video created successfully'',
                   data = Some (JObj [(''video_path'', JStr relative_path),
                                      (''filename'', JStr (path_name video_path)),
                                      (''size'', JStr (format_1f lib file_size (1024 * 1024) @ '' MB'')),
                                      (''duration'', JStr ''Unknown'')])\<rparr>)))))
       (\<lambda>e. io_raise (HTTPException 500 (''Failed to create video: '' @ str_exn e)))"

definition upload_script_endpoint :: "libs \<Rightarrow> upload_file \<Rightarrow> api_response io" where
  "upload_script_endpoint lib script_file =
     try_except
       (io_bind (validate_upload script_file) (\<lambda>_.
        io_bind (save_uploaded_file script_file (OUTPUT_DIR lib)) (\<lambda>script_path.
        io_return \<lparr>status = ''success'',
                   message = ''Script uploaded successfully'',
                   data = Some (JObj [(''script_path'', JStr (''/output/'' @ path_name script_path)),
                                      (''filename'', JStr (path_name script_path))])\<rparr>)))
       (\<lambda>e. io_raise (HTTPException 500 (''Failed to upload script: '' @ str_exn e)))"

text \<open>One entry of \<open>list_outputs\<close>, for a path that is a file.\<close>

definition file_entry :: "libs \<Rightarrow> world \<Rightarrow> string \<Rightarrow> string \<Rightarrow> json" where
  "file_entry lib w file_path content =
     JObj [(''name'', JStr (path_name file_path)),
           (''size'', JStr (format_1f lib (length content) 1024 @ '' KB'')),
           (''modified'', JStr (mtime_iso w file_path)),
           (''type'', JStr (if path_suffix file_path \<noteq> [] then drop 1 (path_suffix file_path)
                            else ''unknown''))]"

text \<open>
  The loop of \<open>list_outputs\<close> over what \<open>iterdir()\<close> gave: \<open>is_file()\<close> is asked for each
  path, and a file adds its entry to \<open>files\<close>.
\<close>

fun output_entries :: "libs \<Rightarrow> string list \<Rightarrow> json list \<Rightarrow> json list io" where
  "output_entries lib [] entries w = (Inr entries, w)"
| "output_entries lib (file_path # rest) entries w =
     (if file_path \<in> deny_stat w then (Inl (Raised PermissionError ''Permission denied''), w)
      else case files w file_path of
             None \<Rightarrow> output_entries lib rest entries w
           | Some content \<Rightarrow>
               output_entries lib rest (entries @ [file_entry lib w file_path content]) w)"

definition list_outputs :: "libs \<Rightarrow> api_response io" where
  "list_outputs lib =
     try_except
       (io_bind (\<lambda>w. (dir_listing w (OUTPUT_DIR lib), w)) (\<lambda>paths.
        io_bind (output_entries lib paths []) (\<lambda>entries.
        io_return \<lparr>status = ''success'',
                   message = ''Found '' @ show_nat (length entries) @ '' files'',
                   data = Some (JObj [(''files'', JArr entries)])\<rparr>)))
       (\<lambda>e. io_raise (HTTPException 500 (''Failed to list outputs: '' @ str_exn e)))"

text \<open>
  \<open>Path.resolve()\<close> in a file system without symbolic links, on the components of an
  absolute path, and \<open>is_relative_to\<close>.
\<close>

fun resolve_parts :: "string list \<Rightarrow> string list \<Rightarrow> string list" where
  "resolve_parts acc [] = rev acc"
| "resolve_parts acc (c # cs) =
     (if c = [] \<or> c = ''.'' then resolve_parts acc cs
      else if c = ''..'' then resolve_parts (tl acc) cs
      else resolve_parts (c # acc) cs)"

definition resolve :: "string \<Rightarrow> string list" where
  "resolve p = resolve_parts [] (split_on CHR ''/'' p)"

definition is_relative_to :: "string list \<Rightarrow> string list \<Rightarrow> bool" where
  "is_relative_to p base = (take (length base) p = base)"

definition delete_file :: "libs \<Rightarrow> string \<Rightarrow> api_response io" where
  "delete_file lib fname =
     try_except
       (let file_path = path_join (OUTPUT_DIR lib) fname in
        if \<not> is_relative_to (resolve file_path) (resolve (OUTPUT_DIR lib)) then
          io_raise (HTTPException 400 ''Invalid file path'')
        else
          io_bind (path_exists file_path) (\<lambda>ex.
          if \<not> ex then io_raise (HTTPException 404 ''File not found'')
          else
            io_bind (unlink file_path) (\<lambda>_.
            io_return \<lparr>status = ''success'',
                       message = ''File '' @ fname @ '' deleted successfully'',
                       data = None\<rparr>)))
       (\<lambda>e. io_raise (HTTPException 500 (''Failed to delete file: '' @ str_exn e)))"

text \<open>What goes back to the client: a status code and a JSON body, or a file.\<close>

datatype body = JsonBody json | FileBody string

type_synonym reply = "nat \<times> body"

text \<open>The serialisation of an \<open>APIResponse\<close>.\<close>

definition envelope :: "api_response \<Rightarrow> json" where
  "envelope r =
     JObj [(''status'', JStr (status r)),
           (''message'', JStr (message r)),
           (''data'', (case data r of None \<Rightarrow> JNull | Some d \<Rightarrow> d))]"

definition http_exception_handler :: "nat \<Rightarrow> string \<Rightarrow> reply io" where
  "http_exception_handler status_code detail =
     io_bind now_isoformat (\<lambda>ts.
     io_return (status_code,
                JsonBody (JObj [(''status'', JStr ''error''),
                                (''message'', JStr detail),
                                (''timestamp'', JStr ts)])))"

definition general_exception_handler :: "exn \<Rightarrow> reply io" where
  "general_exception_handler exc =
     io_bind now_isoformat (\<lambda>ts.
     io_return (500,
                JsonBody (JObj [(''status'', JStr ''error''),
                                (''message'', JStr ''Internal server error''),
                                (''detail'', JStr (str_exn exc)),
                                (''timestamp'', JStr ts)])))"

text \<open>
  What the application does with a handler: its result is serialised with status 200,
  an HTTP exception goes to \<open>http_exception_handler\<close>, any other exception to
  \<open>general_exception_handler\<close>.
\<close>

definition respond :: "api_response io \<Rightarrow> reply io" where
  "respond handler =
     (\<lambda>w. case handler w of
            (Inr r, w') \<Rightarrow> (Inr (200, JsonBody (envelope r)), w')
          | (Inl (HTTPException status_code detail), w') \<Rightarrow>
              http_exception_handler status_code detail w'
          | (Inl e, w') \<Rightarrow> general_exception_handler e w')"

definition health_check :: "reply io" where
  "health_check =
     io_bind now_isoformat (\<lambda>ts.
     io_return (200, JsonBody (JObj [(''status'', JStr ''healthy''), (''timestamp'', JStr ts)])))"

definition index :: "libs \<Rightarrow> reply io" where
  "index lib = io_return (200, FileBody (path_join (FRONTEND_DIR lib) ''index.html''))"

text \<open>The routes.\<close>

datatype request =
    GetIndex
  | GetHealth
  | PostGenerateScript script_request
  | PostGenerateVoice voice_request
  | PostCreateVideo upload_file string string
  | PostUploadScript upload_file
  | GetListOutputs
  | DeleteFile string

fun serve :: "libs \<Rightarrow> request \<Rightarrow> reply io" where
  "serve lib GetIndex = index lib"
| "serve lib GetHealth = health_check"
| "serve lib (PostGenerateScript r) = respond (generate_script_endpoint lib r)"
| "serve lib (PostGenerateVoice r) = respond (generate_voice_endpoint lib r)"
| "serve lib (PostCreateVideo f style resolution) =
     respond (create_video_endpoint lib f style resolution)"
| "serve lib (PostUploadScript f) = respond (upload_script_endpoint lib f)"
| "serve lib GetListOutputs = respond (list_outputs lib)"
| "serve lib (DeleteFile fname) = respond (delete_file lib fname)"

text \<open>The keys of a JSON body, in order; a body that is not a JSON object has none.\<close>

definition body_keys :: "body \<Rightarrow> string list" where
  "body_keys b = (case b of JsonBody (JObj kvs) \<Rightarrow> map fst kvs | _ \<Rightarrow> [])"


text \<open>
  The two JSON bodies that the properties below speak of, written out: the body that
  \<open>http_exception_handler\<close> sends and the serialisation of a successful \<open>APIResponse\<close>.
\<close>

abbreviation error_envelope :: "string \<Rightarrow> string \<Rightarrow> body" where
  "error_envelope detail ts \<equiv>
     JsonBody (JObj [(''status'', JStr ''error''), (''message'', JStr detail),
                     (''timestamp'', JStr ts)])"

abbreviation success_envelope :: "string \<Rightarrow> json \<Rightarrow> body" where
  "success_envelope msg d \<equiv>
     JsonBody (JObj [(''status'', JStr ''success''), (''message'', JStr msg), (''data'', d)])"

section \<open>A concrete installation\<close>

text \<open>
  Small stand-ins for the libraries and services, and a world to run the program in. They
  are used to run the definitions on concrete inputs.
\<close>

definition demo_response :: response where
  "demo_response = \<lparr> resp_ok = True, resp_text = ''OK'', resp_status = 200,
                      resp_json = Inr (JObj [(''status'', JStr ''processing'')]),
                      resp_content = ''MP4DATA'' \<rparr>"

definition demo_libs :: libs where
  "demo_libs = \<lparr>
     fernet_encrypt = (\<lambda>k m. Inr (k @ m)),
     fernet_decrypt = (\<lambda>k c. if take (length k) c = k then Inr (drop (length k) c)
                              else Inl (Raised InvalidToken [])),
     b64encode = (\<lambda>b. b),
     b64decode = (\<lambda>s. if CHR ''!'' \<in> set s
                       then Inl (Raised BinasciiError ''Incorrect padding'') else Inr s),
     json_dumps = (\<lambda>j. case j of
                     JObj [(k1, JStr e), (k2, JStr p), (k3, JNum t)] \<Rightarrow> e @ ''|'' @ p
                   | _ \<Rightarrow> []),
     json_loads = (\<lambda>s. if CHR ''|'' \<in> set s
                     then Inr (credentials_dict (takeWhile (\<lambda>c. c \<noteq> CHR ''|'') s)
                                 (tl (dropWhile (\<lambda>c. c \<noteq> CHR ''|'') s)) (PyFloat 0 0))
                     else Inl (Raised JSONDecodeError ''Expecting value'')),
     py_repr = (\<lambda>j. ''<value>''),
     format_1f = (\<lambda>n d. show_nat (n div d) @ ''.0''),
     OPENAI_API_KEY = Some ''sk-demo'',
     openai_imported = True,
     chat_completion = (\<lambda>model system_message prompt. Inr ''Stay strong.''),
     ELEVENLABS_API_KEY = Some ''el-demo'',
     elevenlabs_imported = True,
     eleven_generate = (\<lambda>txt voice model. Inr [''ID3'', ''abc'']),
     PIKA_API_KEY = Some ''pk-demo'',
     http_post = (\<lambda>n url auth payload.
        Inr (demo_response\<lparr>resp_json := Inr (JObj [(''id'', JStr ''v1'')])\<rparr>)),
     http_get = (\<lambda>n url auth. Inr demo_response),
     runway_client = (\<lambda>api_key. Inr ()),
     runway_create = (\<lambda>model image prompt ratio duration. Inr ''task1''),
     runway_wait = (\<lambda>task. Inr [''https://cdn.example/clip.mp4'']),
     stages_parent_dir = ''/app/Suites'',
     api_base_dir = ''/app'' \<rparr>"

definition demo_manager :: manager where
  "demo_manager = \<lparr> key_file = ''.chatgpt_key'', credentials_file = ''.chatgpt_credentials'',
                     cipher_key = ''k'' \<rparr>"

definition demo_world :: world where
  "demo_world = \<lparr> files = Map.empty, deny_read = {}, deny_write = {}, deny_unlink = {},
                   stdout = [], stdin = [], environ = Map.empty, clock = PyFloat 0 0,
                   deny_mkdir = {}, strftime = (\<lambda>fmt. ''20240101_120000''),
                   isoformat = ''2024-01-01T12:00:00'', uuid4 = ''0123456789abcdef'',
                   http_log = [], slept = [],
                   dir_listing = (\<lambda>d. Inr []), mtime_iso = (\<lambda>p. ''2024-01-01T12:00:00''),
                   calls = [], deny_stat = {}, stdout_accepts = (\<lambda>s. True),
                   api_calls = [] \<rparr>"

text \<open>Stand-in stages that all succeed, each with a result of its own.\<close>

definition demo_stubs :: stages where
  "demo_stubs = stub_stages (\<lambda>args. Inr (PPath ''/out/script.txt''))
                            (\<lambda>args. Inr (PPath ''/out/audio.mp3''))
                            (\<lambda>args. Inr (PStr ''https://cdn.example/clip.mp4''))
                            (\<lambda>args. Inr (PPath ''/out/final.mp4''))
                            (\<lambda>args. Inr PNone)"

text \<open>Requests that fail validation.\<close>

definition blank_script_request :: script_request where
  "blank_script_request = \<lparr>topic = ''   '', length_field = ''medium'',
                             style_field = PStr ''educational''\<rparr>"

definition empty_voice_request :: voice_request where
  "empty_voice_request = \<lparr>text_field = [], voice_type_field = ''female'',
                           speed_field = ''normal''\<rparr>"

definition long_voice_request :: voice_request where
  "long_voice_request = \<lparr>text_field = replicate 5001 CHR ''a'', voice_type_field = ''female'',
                          speed_field = ''normal''\<rparr>"

definition unnamed_upload :: upload_file where
  "unnamed_upload = \<lparr>filename = None, file_bytes = ''hello''\<rparr>"

definition exe_upload :: upload_file where
  "exe_upload = \<lparr>filename = Some ''notes.exe'', file_bytes = ''hello''\<rparr>"

text \<open>Libraries and services that fail, and a world with one script file.\<close>

definition failing_libs :: libs where
  "failing_libs = demo_libs\<lparr>
     fernet_encrypt := (\<lambda>k m. Inl (Raised TypeError ''token must be bytes'')),
     chat_completion := (\<lambda>model system_message prompt. Inl (Raised OSError ''Connection refused'')),
     eleven_generate := (\<lambda>txt voice model. Inl (Raised OSError ''Connection refused'')),
     http_post := (\<lambda>n url auth payload. Inl (Raised OSError ''Connection refused'')),
     runway_wait := (\<lambda>task. Inl (Raised TaskFailedError ''content moderation''))\<rparr>"

definition demo_script_request :: script_request where
  "demo_script_request = \<lparr>topic = ''motivation'', length_field = ''medium'',
                            style_field = PStr ''educational''\<rparr>"


text \<open>A standard output with an ASCII encoding: it accepts a text of ASCII characters only.\<close>

definition ascii_only :: "string \<Rightarrow> bool" where
  "ascii_only s = list_all (\<lambda>c. (of_char c :: nat) < 128) s"

definition ascii_stdout_world :: world where
  "ascii_stdout_world = demo_world\<lparr>stdout_accepts := ascii_only\<rparr>"

text \<open>A world in which the status of the credential file may not be read.\<close>

definition no_stat_world :: world where
  "no_stat_world = demo_world\<lparr>deny_stat := {''.chatgpt_credentials''}\<rparr>"

text \<open>An upload that passes validation.\<close>

definition txt_upload :: upload_file where
  "txt_upload = \<lparr>filename = Some ''notes.TXT'', file_bytes = ''hello''\<rparr>"







section \<open>Properties of the credential store\<close>

lemmas io_defs = io_bind_def io_return_def io_raise_def io_lift_def try_except_def
  py_print_def path_exists_def read_file_def write_file_def unlink_def getenv_def time_time_def



text \<open>
  C2. When \<open>clear_credentials\<close> has returned \<open>True\<close>, the credential file does not exist,
  and \<open>load_credentials\<close> in the world it left returns \<open>None\<close> and changes nothing.
\<close>

theorem clear_then_absent:
  assumes "clear_credentials m w = (Inr True, w')"
  shows "files w' (credentials_file m) = None \<and> load_credentials lib m w' = (Inr None, w')"
  using assms
  by (auto simp: load_credentials_def clear_credentials_def io_defs Let_def
      split: sum.splits option.splits prod.splits if_splits)

theorem clear_then_absent_witness:
  "files (snd (clear_credentials demo_manager
            (demo_world\<lparr>files := [''.chatgpt_credentials'' \<mapsto> ''blob'']\<rparr>)))
         (credentials_file demo_manager) = None
   \<and> load_credentials demo_libs demo_manager
        (snd (clear_credentials demo_manager
            (demo_world\<lparr>files := [''.chatgpt_credentials'' \<mapsto> ''blob'']\<rparr>)))
      = (Inr None, snd (clear_credentials demo_manager
            (demo_world\<lparr>files := [''.chatgpt_credentials'' \<mapsto> ''blob'']\<rparr>)))"
proof -
  have "clear_credentials demo_manager
          (demo_world\<lparr>files := [''.chatgpt_credentials'' \<mapsto> ''blob'']\<rparr>)
      = (Inr True, snd (clear_credentials demo_manager
            (demo_world\<lparr>files := [''.chatgpt_credentials'' \<mapsto> ''blob'']\<rparr>)))"
    by (simp add: clear_credentials_def io_defs demo_manager_def demo_world_def)
  from clear_then_absent [OF this] show ?thesis .
qed




lemma cross_not_ascii: "\<not> ascii_only (cross_mark @ rest)"
  by (simp add: ascii_only_def cross_mark_def)

text \<open>
  C3, as the claim words it, fails. On a standard output with an ASCII encoding the
  message of the \<open>except\<close> clause cannot be printed, and \<open>save_credentials\<close> raises out of
  its handler. When the status of the credential file may not be read, the existence
  check of \<open>load_credentials\<close>, which stands before its \<open>try\<close>, raises.
\<close>

theorem failure_message_print_escapes_counterexample:
  "fst (save_credentials failing_libs demo_manager ''a@b.c'' ''pw1'' ascii_stdout_world)
     = Inl (Raised UnicodeEncodeError ''codec cannot encode character'')
   \<and> fst (load_credentials demo_libs demo_manager no_stat_world)
     = Inl (Raised PermissionError ''Permission denied'')"
  by (simp add: save_credentials_def load_credentials_def encrypt_credentials_def sum_bind_def
        io_defs failing_libs_def demo_manager_def ascii_stdout_world_def no_stat_world_def
        demo_world_def cross_not_ascii)

text \<open>
  C3, as the sources have it. On a standard output that takes every text,
  \<open>save_credentials\<close> and \<open>clear_credentials\<close> never raise: \<open>save_credentials\<close> returns
  \<open>False\<close> exactly when the encryption raised or the file could not be written,
  \<open>clear_credentials\<close> returns \<open>False\<close> exactly when the status of the file could not be
  read or the file exists and could not be removed. \<open>load_credentials\<close>, once its existence
  check has returned, never raises either: it returns \<open>None\<close> when the file is missing, and
  the same \<open>None\<close> when it cannot be read, when decoding, decryption or parsing raises, and
  when the parsed value has no \<open>email\<close>. When the message of an \<open>except\<close> clause cannot be
  printed, the exception of \<open>print\<close> leaves the operation.
\<close>

theorem credential_store_converts_failures:
  "((\<forall>s. stdout_accepts w s) \<longrightarrow>
      fst (save_credentials lib m email password w) =
        Inr (case encrypt_credentials lib m (credentials_dict email password (clock w)) of
               Inl e \<Rightarrow> False
             | Inr blob \<Rightarrow> credentials_file m \<notin> deny_write w)
      \<and> fst (clear_credentials m w) =
        Inr (if credentials_file m \<in> deny_stat w then False
             else (case files w (credentials_file m) of
                     None \<Rightarrow> True
                   | Some content \<Rightarrow> credentials_file m \<notin> deny_unlink w)))
   \<and> ((\<forall>s. stdout_accepts w s) \<and> credentials_file m \<notin> deny_stat w \<longrightarrow>
      fst (load_credentials lib m w) =
        Inr (case files w (credentials_file m) of
               None \<Rightarrow> None
             | Some content \<Rightarrow>
                 if credentials_file m \<in> deny_read w then None
                 else (case decrypt_credentials lib m (py_strip content) of
                         Inl e \<Rightarrow> None
                       | Inr c \<Rightarrow> (case subscript c ''email'' of
                                     Inl e \<Rightarrow> None | Inr v \<Rightarrow> Some c))))
   \<and> (encrypt_credentials lib m (credentials_dict email password (clock w)) = Inl e
        \<and> \<not> stdout_accepts w (cross_mark @ '' Failed to save credentials: '' @ str_exn e) \<longrightarrow>
      save_credentials lib m email password w =
        (Inl (Raised UnicodeEncodeError ''codec cannot encode character''), w))
   \<and> (credentials_file m \<notin> deny_stat w \<and> files w (credentials_file m) = Some content
        \<and> credentials_file m \<notin> deny_read w
        \<and> decrypt_credentials lib m (py_strip content) = Inl e
        \<and> \<not> stdout_accepts w (cross_mark @ '' Failed to load credentials: '' @ str_exn e) \<longrightarrow>
      load_credentials lib m w =
        (Inl (Raised UnicodeEncodeError ''codec cannot encode character''), w))
   \<and> (credentials_file m \<notin> deny_stat w \<and> files w (credentials_file m) = Some content
        \<and> credentials_file m \<in> deny_unlink w
        \<and> \<not> stdout_accepts w (cross_mark @ '' Failed to clear credentials: Permission denied'') \<longrightarrow>
      clear_credentials m w =
        (Inl (Raised UnicodeEncodeError ''codec cannot encode character''), w))"
proof (intro conjI impI)
  assume a: "\<forall>s. stdout_accepts w s"
  show "fst (save_credentials lib m email password w) =
        Inr (case encrypt_credentials lib m (credentials_dict email password (clock w)) of
               Inl e \<Rightarrow> False
             | Inr blob \<Rightarrow> credentials_file m \<notin> deny_write w)"
    using a by (simp add: save_credentials_def io_defs split: sum.split)
  show "fst (clear_credentials m w) =
        Inr (if credentials_file m \<in> deny_stat w then False
             else (case files w (credentials_file m) of
                     None \<Rightarrow> True
                   | Some content \<Rightarrow> credentials_file m \<notin> deny_unlink w))"
    using a by (simp add: clear_credentials_def io_defs split: option.split)
next
  assume a: "(\<forall>s. stdout_accepts w s) \<and> credentials_file m \<notin> deny_stat w"
  then show "fst (load_credentials lib m w) =
        Inr (case files w (credentials_file m) of
               None \<Rightarrow> None
             | Some content \<Rightarrow>
                 if credentials_file m \<in> deny_read w then None
                 else (case decrypt_credentials lib m (py_strip content) of
                         Inl e \<Rightarrow> None
                       | Inr c \<Rightarrow> (case subscript c ''email'' of
                                     Inl e \<Rightarrow> None | Inr v \<Rightarrow> Some c)))"
    by (simp add: load_credentials_def io_defs Let_def split: option.split sum.split)
next
  assume "encrypt_credentials lib m (credentials_dict email password (clock w)) = Inl e
        \<and> \<not> stdout_accepts w (cross_mark @ '' Failed to save credentials: '' @ str_exn e)"
  then show "save_credentials lib m email password w =
        (Inl (Raised UnicodeEncodeError ''codec cannot encode character''), w)"
    by (simp add: save_credentials_def io_defs)
next
  assume "credentials_file m \<notin> deny_stat w \<and> files w (credentials_file m) = Some content
        \<and> credentials_file m \<notin> deny_read w
        \<and> decrypt_credentials lib m (py_strip content) = Inl e
        \<and> \<not> stdout_accepts w (cross_mark @ '' Failed to load credentials: '' @ str_exn e)"
  then show "load_credentials lib m w =
        (Inl (Raised UnicodeEncodeError ''codec cannot encode character''), w)"
    by (simp add: load_credentials_def io_defs)
next
  assume "credentials_file m \<notin> deny_stat w \<and> files w (credentials_file m) = Some content
        \<and> credentials_file m \<in> deny_unlink w
        \<and> \<not> stdout_accepts w (cross_mark @ '' Failed to clear credentials: Permission denied'')"
  then show "clear_credentials m w =
        (Inl (Raised UnicodeEncodeError ''codec cannot encode character''), w)"
    by (simp add: clear_credentials_def io_defs)
qed


lemma failing_enc:
  "encrypt_credentials failing_libs demo_manager (credentials_dict ''a@b.c'' ''pw1'' (clock w))
     = Inl (Raised TypeError ''token must be bytes'')"
  by (simp add: encrypt_credentials_def sum_bind_def failing_libs_def)

lemma demo_decrypt_bad:
  "decrypt_credentials demo_libs demo_manager (py_strip ''xbad'')
     = Inl (Raised InvalidToken [])"
  by (simp add: decrypt_credentials_def sum_bind_def demo_libs_def demo_manager_def
        py_strip_def py_isspace_def)

theorem credential_store_converts_failures_witness:
  "fst (save_credentials failing_libs demo_manager ''a@b.c'' ''pw1'' demo_world) = Inr False
   \<and> fst (load_credentials demo_libs demo_manager demo_world) = Inr None
   \<and> fst (load_credentials demo_libs demo_manager
            (demo_world\<lparr>files := [''.chatgpt_credentials'' \<mapsto> ''xbad'']\<rparr>)) = Inr None
   \<and> fst (clear_credentials demo_manager
            (demo_world\<lparr>files := [''.chatgpt_credentials'' \<mapsto> ''blob''],
                        deny_unlink := {''.chatgpt_credentials''}\<rparr>)) = Inr False
   \<and> save_credentials failing_libs demo_manager ''a@b.c'' ''pw1'' ascii_stdout_world
       = (Inl (Raised UnicodeEncodeError ''codec cannot encode character''), ascii_stdout_world)"
  using credential_store_converts_failures [where lib = failing_libs and m = demo_manager
          and w = demo_world and email = "''a@b.c''" and password = "''pw1''"]
        credential_store_converts_failures [where lib = demo_libs and m = demo_manager
          and w = demo_world]
        credential_store_converts_failures [where lib = demo_libs and m = demo_manager
          and w = "demo_world\<lparr>files := [''.chatgpt_credentials'' \<mapsto> ''xbad'']\<rparr>"]
        credential_store_converts_failures [where m = demo_manager
          and w = "demo_world\<lparr>files := [''.chatgpt_credentials'' \<mapsto> ''blob''],
                        deny_unlink := {''.chatgpt_credentials''}\<rparr>"]
        credential_store_converts_failures [where lib = failing_libs and m = demo_manager
          and w = ascii_stdout_world and email = "''a@b.c''" and password = "''pw1''"
          and e = "Raised TypeError ''token must be bytes''"]
        failing_enc [of demo_world] failing_enc [of ascii_stdout_world] demo_decrypt_bad
        cross_not_ascii
  by (simp add: demo_world_def demo_manager_def ascii_stdout_world_def)

text \<open>
  C8. When \<open>save_credentials\<close> has returned \<open>True\<close>, the credential file holds the base64
  encoding of the Fernet encryption of the JSON text of the record with the keys \<open>email\<close>,
  \<open>password\<close> and \<open>timestamp\<close>, holding the email, the password and the time of the call;
  it replaces whatever the file held and no other file changes. \<open>_decrypt_credentials\<close>
  decodes base64, decrypts, and parses JSON, in this order, and raises what the first
  failing step raises; applied to the saved blob, with libraries that invert their own
  output, it returns that record.
\<close>

theorem saved_blob_is_b64_fernet_json:
  assumes sv: "fst (save_credentials lib m email password w) = Inr True"
  shows "\<exists>ct. fernet_encrypt lib (cipher_key m)
                 (json_dumps lib (JObj [(''email'', JStr email), (''password'', JStr password),
                                        (''timestamp'', JNum (clock w))])) = Inr ct
            \<and> files (snd (save_credentials lib m email password w))
                = (files w)(credentials_file m \<mapsto> b64encode lib ct)
            \<and> (\<forall>s. decrypt_credentials lib m s
                = (case b64decode lib s of
                     Inl e \<Rightarrow> Inl e
                   | Inr bs \<Rightarrow> (case fernet_decrypt lib (cipher_key m) bs of
                                 Inl e \<Rightarrow> Inl e
                               | Inr plain \<Rightarrow> json_loads lib plain)))
            \<and> (b64decode lib (b64encode lib ct) = Inr ct
                \<and> fernet_decrypt lib (cipher_key m) ct
                    = Inr (json_dumps lib (JObj [(''email'', JStr email),
                                                 (''password'', JStr password),
                                                 (''timestamp'', JNum (clock w))]))
                \<and> json_loads lib (json_dumps lib (JObj [(''email'', JStr email),
                                                        (''password'', JStr password),
                                                        (''timestamp'', JNum (clock w))]))
                    = Inr (JObj [(''email'', JStr email), (''password'', JStr password),
                                 (''timestamp'', JNum (clock w))])
                \<longrightarrow> decrypt_credentials lib m (b64encode lib ct)
                      = Inr (JObj [(''email'', JStr email), (''password'', JStr password),
                                   (''timestamp'', JNum (clock w))]))"
proof -
  let ?rec = "JObj [(''email'', JStr email), (''password'', JStr password),
                    (''timestamp'', JNum (clock w))]"
  have rec: "credentials_dict email password (clock w) = ?rec"
    by (simp add: credentials_dict_def)
  from sv have "\<exists>ct. fernet_encrypt lib (cipher_key m)
                   (json_dumps lib (credentials_dict email password (clock w))) = Inr ct
              \<and> files (snd (save_credentials lib m email password w))
                  = (files w)(credentials_file m \<mapsto> b64encode lib ct)"
    by (auto simp: save_credentials_def encrypt_credentials_def sum_bind_def io_defs Let_def
        split: sum.splits if_splits)
  then obtain ct where
    ct: "fernet_encrypt lib (cipher_key m) (json_dumps lib ?rec) = Inr ct"
    and fs: "files (snd (save_credentials lib m email password w))
               = (files w)(credentials_file m \<mapsto> b64encode lib ct)"
    unfolding rec by blast
  have steps: "\<forall>s. decrypt_credentials lib m s
                = (case b64decode lib s of
                     Inl e \<Rightarrow> Inl e
                   | Inr bs \<Rightarrow> (case fernet_decrypt lib (cipher_key m) bs of
                                 Inl e \<Rightarrow> Inl e
                               | Inr plain \<Rightarrow> json_loads lib plain))"
    by (simp add: decrypt_credentials_def sum_bind_def split: sum.split)
  have inv: "b64decode lib (b64encode lib ct) = Inr ct
                \<and> fernet_decrypt lib (cipher_key m) ct = Inr (json_dumps lib ?rec)
                \<and> json_loads lib (json_dumps lib ?rec) = Inr ?rec
                \<longrightarrow> decrypt_credentials lib m (b64encode lib ct) = Inr ?rec"
    by (simp add: decrypt_credentials_def sum_bind_def)
  from ct fs steps inv show ?thesis by blast
qed

theorem saved_blob_is_b64_fernet_json_witness:
  "files (snd (save_credentials demo_libs demo_manager ''a@b.c'' ''pw1'' demo_world))
     = [''.chatgpt_credentials'' \<mapsto> ''ka@b.c|pw1'']
   \<and> decrypt_credentials demo_libs demo_manager ''ka@b.c|pw1''
     = Inr (JObj [(''email'', JStr ''a@b.c''), (''password'', JStr ''pw1''),
                  (''timestamp'', JNum (PyFloat 0 0))])"
proof -
  have sv: "fst (save_credentials demo_libs demo_manager ''a@b.c'' ''pw1'' demo_world) = Inr True"
    by (simp add: save_credentials_def encrypt_credentials_def sum_bind_def io_defs
          demo_libs_def demo_manager_def demo_world_def credentials_dict_def)
  from saved_blob_is_b64_fernet_json [OF sv] obtain ct where
    ct: "fernet_encrypt demo_libs (cipher_key demo_manager)
           (json_dumps demo_libs (JObj [(''email'', JStr ''a@b.c''), (''password'', JStr ''pw1''),
                                        (''timestamp'', JNum (clock demo_world))])) = Inr ct"
    and fs: "files (snd (save_credentials demo_libs demo_manager ''a@b.c'' ''pw1'' demo_world))
               = (files demo_world)(credentials_file demo_manager \<mapsto> b64encode demo_libs ct)"
    and inv: "b64decode demo_libs (b64encode demo_libs ct) = Inr ct
                \<and> fernet_decrypt demo_libs (cipher_key demo_manager) ct
                    = Inr (json_dumps demo_libs (JObj [(''email'', JStr ''a@b.c''),
                                                 (''password'', JStr ''pw1''),
                                                 (''timestamp'', JNum (clock demo_world))]))
                \<and> json_loads demo_libs (json_dumps demo_libs (JObj [(''email'', JStr ''a@b.c''),
                                                        (''password'', JStr ''pw1''),
                                                        (''timestamp'', JNum (clock demo_world))]))
                    = Inr (JObj [(''email'', JStr ''a@b.c''), (''password'', JStr ''pw1''),
                                 (''timestamp'', JNum (clock demo_world))])
                \<longrightarrow> decrypt_credentials demo_libs demo_manager (b64encode demo_libs ct)
                      = Inr (JObj [(''email'', JStr ''a@b.c''), (''password'', JStr ''pw1''),
                                   (''timestamp'', JNum (clock demo_world))])"
    by blast
  from ct have c: "ct = ''ka@b.c|pw1''"
    by (simp add: demo_libs_def demo_manager_def)
  from fs inv show ?thesis
    unfolding c by (simp add: demo_libs_def demo_manager_def demo_world_def credentials_dict_def)
qed

section \<open>Properties of the poll loop\<close>

lemmas poll_defs = poll_once_def requests_get_def time_sleep_def

lemma poll_once_shape:
  "(case poll_once lib url auth w of
      (Inl e, w') \<Rightarrow> w' = w\<lparr>http_log := http_log w @ [''GET '' @ url]\<rparr>
    | (Inr Continue, w') \<Rightarrow>
        w' = w\<lparr>http_log := http_log w @ [''GET '' @ url], slept := slept w @ [5]\<rparr>
    | (Inr (Break v), w') \<Rightarrow>
        truthy_json v \<and>
        w' = w\<lparr>http_log := http_log w @ [''GET '' @ url],
               stdout := stdout w @ [ok_mark @ '' Video ready!'']\<rparr>)"
  by (simp add: poll_defs io_defs split: sum.split option.split)

lemma poll_once_cases:
  "poll_once lib url auth w =
     (Inr Continue, w\<lparr>http_log := http_log w @ [''GET '' @ url], slept := slept w @ [5]\<rparr>)
   \<or> (\<exists>e. poll_once lib url auth w = (Inl e, w\<lparr>http_log := http_log w @ [''GET '' @ url]\<rparr>))
   \<or> (\<exists>v. truthy_json v \<and> poll_once lib url auth w =
          (Inr (Break v), w\<lparr>http_log := http_log w @ [''GET '' @ url],
                             stdout := stdout w @ [ok_mark @ '' Video ready!'']\<rparr>))"
proof -
  obtain r w1 where p: "poll_once lib url auth w = (r, w1)"
    by (cases "poll_once lib url auth w")
  show ?thesis
  proof (cases r)
    case (Inl e)
    with p poll_once_shape [where lib = lib and url = url and auth = auth and w = w] show ?thesis by simp
  next
    case (Inr s)
    with p poll_once_shape [where lib = lib and url = url and auth = auth and w = w] show ?thesis by (cases s) simp_all
  qed
qed

lemma still_renderingD:
  assumes "still_rendering r"
  obtains resp kvs where "r = Inr resp" "resp_ok resp" "resp_json resp = Inr (JObj kvs)"
    "map_of kvs ''status'' \<noteq> Some (JStr ''completed'')"
    "map_of kvs ''status'' \<noteq> Some (JStr ''failed'')"
  using assms unfolding still_rendering_def
  by (auto split: sum.splits json.splits)

lemma poll_once_pending:
  assumes "still_rendering (http_get lib (length (http_log w)) url auth)"
  shows "poll_once lib url auth w =
           (Inr Continue, w\<lparr>http_log := http_log w @ [''GET '' @ url], slept := slept w @ [5]\<rparr>)"
proof -
  from assms obtain resp kvs where
    "http_get lib (length (http_log w)) url auth = Inr resp" "resp_ok resp"
    "resp_json resp = Inr (JObj kvs)"
    "map_of kvs ''status'' \<noteq> Some (JStr ''completed'')"
    "map_of kvs ''status'' \<noteq> Some (JStr ''failed'')"
    by (rule still_renderingD)
  then show ?thesis by (simp add: poll_defs dict_get_def io_defs)
qed

lemma poll_loop_effects:
  "\<exists>k \<le> max_attempts - a.
      length (http_log (snd (poll_loop lib url auth a w))) \<le> length (http_log w) + (max_attempts - a)
    \<and> slept (snd (poll_loop lib url auth a w)) = slept w @ replicate k 5"
proof (induction lib url auth a w rule: poll_loop.induct)
  case (1 lib url auth a w)
  show ?case
  proof (cases "a < max_attempts")
    case False
    then show ?thesis by (simp add: poll_loop.simps)
  next
    case True
    let ?L = "http_log w @ [''GET '' @ url]"
    from poll_once_cases [of lib url auth w]
    consider (cont) "poll_once lib url auth w =
        (Inr Continue, w\<lparr>http_log := ?L, slept := slept w @ [5]\<rparr>)"
      | (exc) e where "poll_once lib url auth w = (Inl e, w\<lparr>http_log := ?L\<rparr>)"
      | (brk) v where "poll_once lib url auth w =
          (Inr (Break v), w\<lparr>http_log := ?L, stdout := stdout w @ [ok_mark @ '' Video ready!'']\<rparr>)"
      by blast
    then show ?thesis
    proof cases
      case cont
      let ?w1 = "w\<lparr>http_log := ?L, slept := slept w @ [5]\<rparr>"
      from "1.IH" [OF True cont [symmetric] refl refl]
      obtain k where k: "k \<le> max_attempts - (a + 1)"
        "length (http_log (snd (poll_loop lib url auth (a + 1) ?w1)))
           \<le> length (http_log ?w1) + (max_attempts - (a + 1))"
        "slept (snd (poll_loop lib url auth (a + 1) ?w1)) = slept ?w1 @ replicate k 5"
        by blast
      have eq: "poll_loop lib url auth a w = poll_loop lib url auth (a + 1) ?w1"
        using True cont by (simp add: poll_loop.simps [of lib url auth a w])
      have "Suc k \<le> max_attempts - a" using k(1) True by simp
      moreover have "length (http_log (snd (poll_loop lib url auth a w)))
           \<le> length (http_log w) + (max_attempts - a)"
        using k(2) True eq by simp
      moreover have "slept (snd (poll_loop lib url auth a w)) = slept w @ replicate (Suc k) 5"
        using k(3) eq by (simp add: replicate_app_Cons_same)
      ultimately show ?thesis by blast
    next
      case exc
      with True show ?thesis
        by (intro exI [of _ 0]) (simp add: poll_loop.simps [of lib url auth a w])
    next
      case brk
      with True show ?thesis
        by (intro exI [of _ 0]) (simp add: poll_loop.simps [of lib url auth a w])
    qed
  qed
qed

lemma poll_loop_pending:
  assumes "\<And>n. still_rendering (http_get lib n url auth)"
  shows "poll_loop lib url auth a w =
           (Inr None, w\<lparr>http_log := http_log w @ replicate (max_attempts - a) (''GET '' @ url),
                         slept := slept w @ replicate (max_attempts - a) 5\<rparr>)"
  using assms
proof (induction lib url auth a w rule: poll_loop.induct)
  case (1 lib url auth a w)
  show ?case
  proof (cases "a < max_attempts")
    case False
    then show ?thesis by (simp add: poll_loop.simps)
  next
    case True
    let ?w1 = "w\<lparr>http_log := http_log w @ [''GET '' @ url], slept := slept w @ [5]\<rparr>"
    have p: "poll_once lib url auth w = (Inr Continue, ?w1)"
      by (rule poll_once_pending) (rule "1.prems")
    have eq: "poll_loop lib url auth a w = poll_loop lib url auth (a + 1) ?w1"
      using True p by (simp add: poll_loop.simps [of lib url auth a w])
    have s: "max_attempts - a = Suc (max_attempts - (a + 1))" using True by simp
    show ?thesis
      unfolding eq "1.IH" [OF True p [symmetric] refl refl "1.prems"] s
      by (simp add: replicate_app_Cons_same)
  qed
qed


lemma create_video_times_out:
  assumes key: "PIKA_API_KEY lib = Some k" "k \<noteq> []"
    and fl: "files w script_path = Some content" "script_path \<notin> deny_read w"
      "script_path \<notin> deny_stat w"
    and out: "\<And>s. stdout_accepts w s"
    and post: "\<And>payload. http_post lib (length (http_log w))
                 ''https://api.pika.art/v1/video.create'' (''Bearer '' @ k) payload = Inr resp"
    and resp: "resp_ok resp" "resp_json resp = Inr (JObj kvs)" "map_of kvs ''id'' = Some vid"
    and pend: "\<And>n. still_rendering
                 (http_get lib n (''https://api.pika.art/v1/video.get?id='' @ py_str lib vid)
                    (Some (''Bearer '' @ k)))"
  shows "fst (create_video lib script_path style resolution w)
           = Inl (Raised PlainException ''Failed to create video: Video generation timed out'')
       \<and> http_log (snd (create_video lib script_path style resolution w))
           = http_log w @ [''POST https://api.pika.art/v1/video.create'']
             @ replicate 60 (''GET https://api.pika.art/v1/video.get?id='' @ py_str lib vid)
       \<and> slept (snd (create_video lib script_path style resolution w))
           = slept w @ replicate 60 5"
proof -
  have has: "json_contains ''id'' (JObj kvs) = Inr True"
    using resp(3) by (auto simp: json_contains_def dest!: map_of_SomeD intro: image_eqI [where x = "(''id'', vid)"])
  have sub: "subscript (JObj kvs) ''id'' = Inr vid"
    using resp(3) by (simp add: subscript_def)
  note pl = poll_loop_pending [OF pend, where a = 0, simplified max_attempts_def, simplified]
  show ?thesis
    using key fl post resp(1,2) has sub out
    by (simp add: create_video_def create_video_body_def download_video_def requests_post_def
          truthy_env_def io_defs Let_def pl)
qed


text \<open>
  C7. The poll loop of \<open>create_video\<close> makes at most 60 status requests and sleeps 5
  seconds after each request that left the job unfinished, whatever the service answers.
  When every answer leaves the job unfinished the loop ends after exactly 60 requests and
  60 sleeps with no URL, and \<open>create_video\<close>, once it has read the script and created the
  job on a standard output that takes its progress lines, raises the timeout error. The
  loop is a total function: it returns in every world.
\<close>

theorem poll_loop_bounded:
  "(\<exists>k \<le> 60.
       length (http_log (snd (poll_loop lib url auth 0 w))) \<le> length (http_log w) + 60
     \<and> slept (snd (poll_loop lib url auth 0 w)) = slept w @ replicate k 5)
   \<and> ((\<forall>n. still_rendering (http_get lib n url auth)) \<longrightarrow>
        poll_loop lib url auth 0 w =
          (Inr None, w\<lparr>http_log := http_log w @ replicate 60 (''GET '' @ url),
                        slept := slept w @ replicate 60 5\<rparr>))
   \<and> (PIKA_API_KEY lib = Some k \<and> k \<noteq> []
        \<and> files w script_path = Some content \<and> script_path \<notin> deny_read w
        \<and> script_path \<notin> deny_stat w \<and> (\<forall>s. stdout_accepts w s)
        \<and> (\<forall>payload. http_post lib (length (http_log w))
               ''https://api.pika.art/v1/video.create'' (''Bearer '' @ k) payload = Inr resp)
        \<and> resp_ok resp \<and> resp_json resp = Inr (JObj kvs) \<and> map_of kvs ''id'' = Some vid
        \<and> (\<forall>n. still_rendering
               (http_get lib n (''https://api.pika.art/v1/video.get?id='' @ py_str lib vid)
                  (Some (''Bearer '' @ k)))) \<longrightarrow>
        fst (create_video lib script_path style resolution w)
           = Inl (Raised PlainException ''Failed to create video: Video generation timed out'')
        \<and> http_log (snd (create_video lib script_path style resolution w))
           = http_log w @ [''POST https://api.pika.art/v1/video.create'']
             @ replicate 60 (''GET https://api.pika.art/v1/video.get?id='' @ py_str lib vid)
        \<and> slept (snd (create_video lib script_path style resolution w))
           = slept w @ replicate 60 5)"
proof (intro conjI impI)
  show "\<exists>k \<le> 60.
       length (http_log (snd (poll_loop lib url auth 0 w))) \<le> length (http_log w) + 60
     \<and> slept (snd (poll_loop lib url auth 0 w)) = slept w @ replicate k 5"
    using poll_loop_effects [of 0 lib url auth w] by (simp add: max_attempts_def)
next
  assume "\<forall>n. still_rendering (http_get lib n url auth)"
  then show "poll_loop lib url auth 0 w =
          (Inr None, w\<lparr>http_log := http_log w @ replicate 60 (''GET '' @ url),
                        slept := slept w @ replicate 60 5\<rparr>)"
    using poll_loop_pending [of lib url auth 0 w] by (simp add: max_attempts_def)
next
  assume h: "PIKA_API_KEY lib = Some k \<and> k \<noteq> []
        \<and> files w script_path = Some content \<and> script_path \<notin> deny_read w
        \<and> script_path \<notin> deny_stat w \<and> (\<forall>s. stdout_accepts w s)
        \<and> (\<forall>payload. http_post lib (length (http_log w))
               ''https://api.pika.art/v1/video.create'' (''Bearer '' @ k) payload = Inr resp)
        \<and> resp_ok resp \<and> resp_json resp = Inr (JObj kvs) \<and> map_of kvs ''id'' = Some vid
        \<and> (\<forall>n. still_rendering
               (http_get lib n (''https://api.pika.art/v1/video.get?id='' @ py_str lib vid)
                  (Some (''Bearer '' @ k))))"
  have t: "fst (create_video lib script_path style resolution w)
           = Inl (Raised PlainException ''Failed to create video: Video generation timed out'')
       \<and> http_log (snd (create_video lib script_path style resolution w))
           = http_log w @ [''POST https://api.pika.art/v1/video.create'']
             @ replicate 60 (''GET https://api.pika.art/v1/video.get?id='' @ py_str lib vid)
       \<and> slept (snd (create_video lib script_path style resolution w))
           = slept w @ replicate 60 5"
    by (rule create_video_times_out [where k = k and content = content and resp = resp
          and kvs = kvs and vid = vid]) (use h in blast)+
  from t show "fst (create_video lib script_path style resolution w)
           = Inl (Raised PlainException ''Failed to create video: Video generation timed out'')"
    by blast
  from t show "http_log (snd (create_video lib script_path style resolution w))
           = http_log w @ [''POST https://api.pika.art/v1/video.create'']
             @ replicate 60 (''GET https://api.pika.art/v1/video.get?id='' @ py_str lib vid)"
    by blast
  from t show "slept (snd (create_video lib script_path style resolution w))
           = slept w @ replicate 60 5"
    by blast
qed

lemma demo_still_rendering: "still_rendering (http_get demo_libs n url auth)"
  by (simp add: still_rendering_def demo_libs_def demo_response_def)

theorem poll_loop_bounded_witness:
  "poll_loop demo_libs ''https://api.pika.art/v1/video.get?id=v1'' None 0 demo_world =
     (Inr None, demo_world\<lparr>http_log := http_log demo_world
                                  @ replicate 60 (''GET '' @ ''https://api.pika.art/v1/video.get?id=v1''),
                             slept := slept demo_world @ replicate 60 5\<rparr>)
   \<and> fst (create_video demo_libs ''/app/in.txt'' (PStr ''modern'') ''1080p''
            (demo_world\<lparr>files := [''/app/in.txt'' \<mapsto> ''Be brave.'']\<rparr>))
       = Inl (Raised PlainException ''Failed to create video: Video generation timed out'')
   \<and> slept (snd (create_video demo_libs ''/app/in.txt'' (PStr ''modern'') ''1080p''
            (demo_world\<lparr>files := [''/app/in.txt'' \<mapsto> ''Be brave.'']\<rparr>)))
       = replicate 60 5"
proof -
  have a: "\<forall>n. still_rendering (http_get demo_libs n ''https://api.pika.art/v1/video.get?id=v1'' None)"
    by (simp add: demo_still_rendering)
  have b: "PIKA_API_KEY demo_libs = Some ''pk-demo'' \<and> ''pk-demo'' \<noteq> []
        \<and> files (demo_world\<lparr>files := [''/app/in.txt'' \<mapsto> ''Be brave.'']\<rparr>) ''/app/in.txt''
            = Some ''Be brave.''
        \<and> ''/app/in.txt'' \<notin> deny_read (demo_world\<lparr>files := [''/app/in.txt'' \<mapsto> ''Be brave.'']\<rparr>)
        \<and> ''/app/in.txt'' \<notin> deny_stat (demo_world\<lparr>files := [''/app/in.txt'' \<mapsto> ''Be brave.'']\<rparr>)
        \<and> (\<forall>s. stdout_accepts (demo_world\<lparr>files := [''/app/in.txt'' \<mapsto> ''Be brave.'']\<rparr>) s)
        \<and> (\<forall>payload. http_post demo_libs
               (length (http_log (demo_world\<lparr>files := [''/app/in.txt'' \<mapsto> ''Be brave.'']\<rparr>)))
               ''https://api.pika.art/v1/video.create'' (''Bearer '' @ ''pk-demo'') payload
               = Inr (demo_response\<lparr>resp_json := Inr (JObj [(''id'', JStr ''v1'')])\<rparr>))
        \<and> resp_ok (demo_response\<lparr>resp_json := Inr (JObj [(''id'', JStr ''v1'')])\<rparr>)
        \<and> resp_json (demo_response\<lparr>resp_json := Inr (JObj [(''id'', JStr ''v1'')])\<rparr>)
            = Inr (JObj [(''id'', JStr ''v1'')])
        \<and> map_of [(''id'', JStr ''v1'')] ''id'' = Some (JStr ''v1'')
        \<and> (\<forall>n. still_rendering
               (http_get demo_libs n
                  (''https://api.pika.art/v1/video.get?id='' @ py_str demo_libs (JStr ''v1''))
                  (Some (''Bearer '' @ ''pk-demo''))))"
    by (simp add: demo_still_rendering) (simp add: demo_libs_def demo_world_def demo_response_def)
  show ?thesis
    using poll_loop_bounded [where lib = demo_libs
        and url = "''https://api.pika.art/v1/video.get?id=v1''" and auth = None
        and w = "demo_world\<lparr>files := [''/app/in.txt'' \<mapsto> ''Be brave.'']\<rparr>"
        and k = "''pk-demo''" and script_path = "''/app/in.txt''" and content = "''Be brave.''"
        and resp = "demo_response\<lparr>resp_json := Inr (JObj [(''id'', JStr ''v1'')])\<rparr>"
        and kvs = "[(''id'', JStr ''v1'')]" and vid = "JStr ''v1''"
        and style = "PStr ''modern''" and resolution = "''1080p''"]
      poll_loop_bounded [where lib = demo_libs
        and url = "''https://api.pika.art/v1/video.get?id=v1''" and auth = None
        and w = demo_world]
      a b
    by (simp add: demo_world_def)
qed

section \<open>Properties of the pipeline\<close>

lemmas stub_defs = pipeline_main_def stub_stages_def stub_stage_def

text \<open>
  C6, as the sources have it. \<open>main\<close> calls the stage functions in the fixed order script
  generation, voice generation, animation generation, video editing, upload, once each,
  with no branch and no retry; a stage that raises ends \<open>main\<close> with that exception and no
  later stage is called. The script returned by the first call is the argument of the
  second and of the third call; the fourth call gets the result of the third and the result
  of the second; the fifth call gets the result of the fourth. This holds for every
  behaviour of the five stage functions.
\<close>

theorem pipeline_main_trace:
  "pipeline_main (stub_stages r1 r2 r3 r4 r5) w =
     (let c1 = Call ''script_gen.run'' [PStr ''motivation''] (r1 [PStr ''motivation'']) in
      case r1 [PStr ''motivation''] of
        Inl e \<Rightarrow> (Inl e, w\<lparr>calls := calls w @ [c1]\<rparr>)
      | Inr script_file \<Rightarrow>
     (let c2 = Call ''voice_gen.run'' [script_file] (r2 [script_file]) in
      case r2 [script_file] of
        Inl e \<Rightarrow> (Inl e, w\<lparr>calls := calls w @ [c1, c2]\<rparr>)
      | Inr audio_file \<Rightarrow>
     (let c3 = Call ''animation_gen.run'' [script_file] (r3 [script_file]) in
      case r3 [script_file] of
        Inl e \<Rightarrow> (Inl e, w\<lparr>calls := calls w @ [c1, c2, c3]\<rparr>)
      | Inr video_file \<Rightarrow>
     (let c4 = Call ''video_edit.run'' [video_file, audio_file] (r4 [video_file, audio_file]) in
      case r4 [video_file, audio_file] of
        Inl e \<Rightarrow> (Inl e, w\<lparr>calls := calls w @ [c1, c2, c3, c4]\<rparr>)
      | Inr final_video \<Rightarrow>
     (let c5 = Call ''upload_youtube.run'' [final_video] (r5 [final_video]) in
      case r5 [final_video] of
        Inl e \<Rightarrow> (Inl e, w\<lparr>calls := calls w @ [c1, c2, c3, c4, c5]\<rparr>)
      | Inr u \<Rightarrow> (Inr (), w\<lparr>calls := calls w @ [c1, c2, c3, c4, c5]\<rparr>))))))"
  by (simp add: stub_defs io_defs Let_def split: sum.split)

text \<open>
  C6, as the claim words it, fails: in a run where all five stages succeed, the audio file
  that the second stage returned is not an argument of the third call, which gets the
  script again.
\<close>

theorem artifact_not_consumed_by_next_counterexample:
  "fst (pipeline_main demo_stubs demo_world) = Inr ()
   \<and> calls (snd (pipeline_main demo_stubs demo_world)) ! 1
       = Call ''voice_gen.run'' [PPath ''/out/script.txt''] (Inr (PPath ''/out/audio.mp3''))
   \<and> calls (snd (pipeline_main demo_stubs demo_world)) ! 2
       = Call ''animation_gen.run'' [PPath ''/out/script.txt'']
           (Inr (PStr ''https://cdn.example/clip.mp4''))
   \<and> \<not> chained (calls (snd (pipeline_main demo_stubs demo_world)))"
  by (simp add: demo_stubs_def stub_defs io_defs demo_world_def)

section \<open>Properties of the HTTP server\<close>

lemma show_nat_400: "show_nat 400 = ''400''"
  by code_simp

lemma validate_upload_missing:
  assumes "filename f = None \<or> filename f = Some []"
  shows "validate_upload f w = (Inl (HTTPException 400 ''No file provided''), w)"
  using assms by (auto simp: validate_upload_def io_defs)

lemma validate_upload_extension:
  assumes "filename f = Some name" "name \<noteq> []"
    "py_lower (path_suffix name) \<notin> set allowed_extensions"
  shows "validate_upload f w =
           (Inl (HTTPException 400 ''Invalid file type. Allowed: .txt, .md''), w)"
  using assms by (simp add: validate_upload_def io_defs Let_def allowed_extensions_def)

text \<open>
  C10. In the four handlers that validate their input, the validation failure is an HTTP
  exception with status 400 raised inside the handler's own \<open>try\<close> block; the handler's
  \<open>except Exception\<close> catches it and raises an HTTP exception with status 500 whose detail
  is the handler's prefix followed by the text of the caught exception, which contains the
  validation message. The client gets status 500. This covers an empty topic, an empty or
  too long text, a missing file name and an extension that is not allowed; nothing else
  happens in the world.
\<close>

theorem validation_failures_become_500:
  "(py_strip (topic r) = [] \<longrightarrow>
      generate_script_endpoint lib r w =
        (Inl (HTTPException 500 ''Failed to generate script: 400: Topic cannot be empty''), w))
   \<and> (py_strip (text_field v) = [] \<longrightarrow>
      generate_voice_endpoint lib v w =
        (Inl (HTTPException 500 ''Failed to generate voice: 400: Text cannot be empty''), w))
   \<and> (py_strip (text_field v) \<noteq> [] \<and> length (text_field v) > 5000 \<longrightarrow>
      generate_voice_endpoint lib v w =
        (Inl (HTTPException 500
           ''Failed to generate voice: 400: Text too long (max 5000 characters)''), w))
   \<and> (filename f = None \<or> filename f = Some [] \<longrightarrow>
      create_video_endpoint lib f style resolution w =
        (Inl (HTTPException 500 ''Failed to create video: 400: No file provided''), w)
      \<and> upload_script_endpoint lib f w =
        (Inl (HTTPException 500 ''Failed to upload script: 400: No file provided''), w))
   \<and> (filename f = Some name \<and> name \<noteq> []
        \<and> py_lower (path_suffix name) \<notin> set allowed_extensions \<longrightarrow>
      create_video_endpoint lib f style resolution w =
        (Inl (HTTPException 500
           ''Failed to create video: 400: Invalid file type. Allowed: .txt, .md''), w)
      \<and> upload_script_endpoint lib f w =
        (Inl (HTTPException 500
           ''Failed to upload script: 400: Invalid file type. Allowed: .txt, .md''), w))
   \<and> (py_strip (topic r) = [] \<longrightarrow>
      fst (serve lib (PostGenerateScript r) w) =
        Inr (500, JsonBody (JObj
          [(''status'', JStr ''error''),
           (''message'', JStr ''Failed to generate script: 400: Topic cannot be empty''),
           (''timestamp'', JStr (isoformat w))])))"
proof (intro conjI impI)
  assume "py_strip (topic r) = []"
  then show "generate_script_endpoint lib r w =
        (Inl (HTTPException 500 ''Failed to generate script: 400: Topic cannot be empty''), w)"
    by (simp add: generate_script_endpoint_def try_except_def io_raise_def show_nat_400)
  then show "fst (serve lib (PostGenerateScript r) w) =
        Inr (500, JsonBody (JObj
          [(''status'', JStr ''error''),
           (''message'', JStr ''Failed to generate script: 400: Topic cannot be empty''),
           (''timestamp'', JStr (isoformat w))]))"
    by (simp add: respond_def http_exception_handler_def now_isoformat_def io_defs)
next
  assume "py_strip (text_field v) = []"
  then show "generate_voice_endpoint lib v w =
        (Inl (HTTPException 500 ''Failed to generate voice: 400: Text cannot be empty''), w)"
    by (simp add: generate_voice_endpoint_def try_except_def io_raise_def show_nat_400)
next
  assume "py_strip (text_field v) \<noteq> [] \<and> length (text_field v) > 5000"
  then show "generate_voice_endpoint lib v w =
        (Inl (HTTPException 500
           ''Failed to generate voice: 400: Text too long (max 5000 characters)''), w)"
    by (simp add: generate_voice_endpoint_def try_except_def io_raise_def show_nat_400)
next
  assume a: "filename f = None \<or> filename f = Some []"
  show "create_video_endpoint lib f style resolution w =
        (Inl (HTTPException 500 ''Failed to create video: 400: No file provided''), w)"
    by (simp add: create_video_endpoint_def try_except_def io_raise_def io_bind_def
          validate_upload_missing [OF a] show_nat_400)
  show "upload_script_endpoint lib f w =
        (Inl (HTTPException 500 ''Failed to upload script: 400: No file provided''), w)"
    by (simp add: upload_script_endpoint_def try_except_def io_raise_def io_bind_def
          validate_upload_missing [OF a] show_nat_400)
next
  assume a: "filename f = Some name \<and> name \<noteq> []
        \<and> py_lower (path_suffix name) \<notin> set allowed_extensions"
  then have v: "validate_upload f w =
           (Inl (HTTPException 400 ''Invalid file type. Allowed: .txt, .md''), w)"
    by (intro validate_upload_extension) blast+
  show "create_video_endpoint lib f style resolution w =
        (Inl (HTTPException 500
           ''Failed to create video: 400: Invalid file type. Allowed: .txt, .md''), w)"
    by (simp add: create_video_endpoint_def try_except_def io_raise_def io_bind_def v show_nat_400)
  show "upload_script_endpoint lib f w =
        (Inl (HTTPException 500
           ''Failed to upload script: 400: Invalid file type. Allowed: .txt, .md''), w)"
    by (simp add: upload_script_endpoint_def try_except_def io_raise_def io_bind_def v show_nat_400)
qed


lemma blank_topic: "py_strip (topic blank_script_request) = []"
  by (simp add: blank_script_request_def py_strip_def py_isspace_def)

lemma long_text: "py_strip (text_field long_voice_request) \<noteq> []
    \<and> length (text_field long_voice_request) > 5000"
  by (simp add: long_voice_request_def py_strip_def py_isspace_def)

lemma exe_suffix: "py_lower (path_suffix ''notes.exe'') = ''.exe''"
  by code_simp

theorem validation_failures_become_500_witness:
  "generate_script_endpoint demo_libs blank_script_request demo_world =
     (Inl (HTTPException 500 ''Failed to generate script: 400: Topic cannot be empty''),
      demo_world)
   \<and> generate_voice_endpoint demo_libs empty_voice_request demo_world =
     (Inl (HTTPException 500 ''Failed to generate voice: 400: Text cannot be empty''),
      demo_world)
   \<and> generate_voice_endpoint demo_libs long_voice_request demo_world =
     (Inl (HTTPException 500
        ''Failed to generate voice: 400: Text too long (max 5000 characters)''), demo_world)
   \<and> create_video_endpoint demo_libs unnamed_upload ''modern'' ''1080p'' demo_world =
     (Inl (HTTPException 500 ''Failed to create video: 400: No file provided''), demo_world)
   \<and> upload_script_endpoint demo_libs exe_upload demo_world =
     (Inl (HTTPException 500
        ''Failed to upload script: 400: Invalid file type. Allowed: .txt, .md''), demo_world)
   \<and> fst (serve demo_libs (PostGenerateScript blank_script_request) demo_world) =
     Inr (500, JsonBody (JObj
       [(''status'', JStr ''error''),
        (''message'', JStr ''Failed to generate script: 400: Topic cannot be empty''),
        (''timestamp'', JStr (isoformat demo_world))]))"
  using validation_failures_become_500 [where r = blank_script_request
          and v = empty_voice_request and f = unnamed_upload and lib = demo_libs
          and w = demo_world and style = "''modern''" and resolution = "''1080p''"]
        validation_failures_become_500 [where v = long_voice_request and f = exe_upload
          and name = "''notes.exe''" and lib = demo_libs and w = demo_world]
        blank_topic long_text exe_suffix
  by (simp add: empty_voice_request_def unnamed_upload_def exe_upload_def py_strip_def
        allowed_extensions_def)

lemma show_nat_404: "show_nat 404 = ''404''"
  by code_simp

lemmas serve_defs = respond_def try_except_def io_raise_def io_bind_def io_return_def
  http_exception_handler_def now_isoformat_def envelope_def

lemma serve_script:
  "serve lib (PostGenerateScript r) w =
     (if py_strip (topic r) = [] then
        (Inr (500, error_envelope ''Failed to generate script: 400: Topic cannot be empty''
                     (isoformat w)), w)
      else
        (case generate_script lib (topic r) (length_field r) (style_field r) w of
           (Inl e, w') \<Rightarrow>
             (Inr (500, error_envelope (''Failed to generate script: '' @ str_exn e)
                          (isoformat w')), w')
         | (Inr script_path, w') \<Rightarrow>
             (Inr (200, success_envelope ''Script generated successfully''
                   (JObj [(''script_path'', JStr (''/output/'' @ path_name script_path)),
                          (''script_content'',
                           JStr (case fst (read_file script_path w') of
                                   Inr content \<Rightarrow> content
                                 | Inl e \<Rightarrow> ''Script generated but content could not be read: ''
                                            @ str_exn e)),
                          (''filename'', JStr (path_name script_path))])), w')))"
  by (simp add: generate_script_endpoint_def serve_defs read_file_def show_nat_400 Let_def
      split: prod.split sum.split option.split)

lemma serve_voice:
  "serve lib (PostGenerateVoice v) w =
     (if py_strip (text_field v) = [] then
        (Inr (500, error_envelope ''Failed to generate voice: 400: Text cannot be empty''
                     (isoformat w)), w)
      else if length (text_field v) > 5000 then
        (Inr (500, error_envelope
                     ''Failed to generate voice: 400: Text too long (max 5000 characters)''
                     (isoformat w)), w)
      else
        (case generate_voice lib (text_field v) (voice_type_field v) (speed_field v) w of
           (Inl e, w') \<Rightarrow>
             (Inr (500, error_envelope (''Failed to generate voice: '' @ str_exn e)
                          (isoformat w')), w')
         | (Inr voice_path, w') \<Rightarrow>
             (Inr (200, success_envelope ''Voice generated successfully''
                   (JObj [(''voice_path'', JStr (''/output/'' @ path_name voice_path)),
                          (''filename'', JStr (path_name voice_path)),
                          (''duration'', JStr ''Unknown'')])), w')))"
  by (simp add: generate_voice_endpoint_def serve_defs show_nat_400 Let_def
      split: prod.split sum.split)


lemma validate_upload_eq:
  "validate_upload f w =
     (case filename f of
        None \<Rightarrow> (Inl (HTTPException 400 ''No file provided''), w)
      | Some name \<Rightarrow>
          if name = [] then (Inl (HTTPException 400 ''No file provided''), w)
          else if py_lower (path_suffix name) \<notin> set [''.txt'', ''.md'']
          then (Inl (HTTPException 400 ''Invalid file type. Allowed: .txt, .md''), w)
          else (Inr name, w))"
  by (simp add: validate_upload_def io_raise_def io_return_def Let_def allowed_extensions_def
      split: option.split)

lemma serve_video:
  "serve lib (PostCreateVideo f style resolution) w =
     (case filename f of
        None \<Rightarrow>
          (Inr (500, error_envelope ''Failed to create video: 400: No file provided''
                       (isoformat w)), w)
      | Some name \<Rightarrow>
          if name = [] then
            (Inr (500, error_envelope ''Failed to create video: 400: No file provided''
                         (isoformat w)), w)
          else if py_lower (path_suffix name) \<notin> set [''.txt'', ''.md''] then
            (Inr (500, error_envelope
                   ''Failed to create video: 400: Invalid file type. Allowed: .txt, .md''
                   (isoformat w)), w)
          else
            (case save_uploaded_file f (OUTPUT_DIR lib) w of
               (Inl e, w1) \<Rightarrow>
                 (Inr (500, error_envelope (''Failed to create video: '' @ str_exn e)
                              (isoformat w1)), w1)
             | (Inr script_path, w1) \<Rightarrow>
                 (case create_video lib script_path (PStr style) resolution w1 of
                    (Inl e, w2) \<Rightarrow>
                      (Inr (500, error_envelope (''Failed to create video: '' @ str_exn e)
                                   (isoformat w2)), w2)
                  | (Inr video_path, w2) \<Rightarrow>
                      (case size_or_zero video_path w2 of
                         (Inl e, w3) \<Rightarrow>
                           (Inr (500, error_envelope (''Failed to create video: '' @ str_exn e)
                                        (isoformat w3)), w3)
                       | (Inr file_size, w3) \<Rightarrow>
                           (Inr (200, success_envelope ''Video created successfully''
                                 (JObj [(''video_path'', JStr (''/output/'' @ path_name video_path)),
                                        (''filename'', JStr (path_name video_path)),
                                        (''size'', JStr (format_1f lib file_size (1024 * 1024)
                                                        @ '' MB'')),
                                        (''duration'', JStr ''Unknown'')])), w3)))))"
proof (cases "filename f")
  case None
  then show ?thesis
    by (simp add: create_video_endpoint_def serve_defs validate_upload_eq show_nat_400)
next
  case (Some name)
  show ?thesis
  proof (cases "name = [] \<or> py_lower (path_suffix name) \<notin> set [''.txt'', ''.md'']")
    case True
    with Some show ?thesis
      by (auto simp: create_video_endpoint_def serve_defs validate_upload_eq show_nat_400)
  next
    case False
    obtain r1 w1 where s1: "save_uploaded_file f (OUTPUT_DIR lib) w = (r1, w1)"
      by (cases "save_uploaded_file f (OUTPUT_DIR lib) w")
    show ?thesis
    proof (cases r1)
      case (Inl e)
      with Some False s1 show ?thesis
        by (simp add: create_video_endpoint_def serve_defs validate_upload_eq)
    next
      case (Inr script_path)
      obtain r2 w2 where s2: "create_video lib script_path (PStr style) resolution w1 = (r2, w2)"
        by (cases "create_video lib script_path (PStr style) resolution w1")
      show ?thesis
      proof (cases r2)
        case (Inl e)
        with Some False s1 Inr s2 show ?thesis
          by (simp add: create_video_endpoint_def serve_defs validate_upload_eq)
      next
        case r2: (Inr video_path)
        obtain r3 w3 where s3: "size_or_zero video_path w2 = (r3, w3)"
          by (cases "size_or_zero video_path w2")
        from Some False s1 Inr s2 r2 s3 show ?thesis
          by (cases r3) (simp_all add: create_video_endpoint_def serve_defs validate_upload_eq
                Let_def)
      qed
    qed
  qed
qed

lemma serve_upload:
  "serve lib (PostUploadScript f) w =
     (case filename f of
        None \<Rightarrow>
          (Inr (500, error_envelope ''Failed to upload script: 400: No file provided''
                       (isoformat w)), w)
      | Some name \<Rightarrow>
          if name = [] then
            (Inr (500, error_envelope ''Failed to upload script: 400: No file provided''
                         (isoformat w)), w)
          else if py_lower (path_suffix name) \<notin> set [''.txt'', ''.md''] then
            (Inr (500, error_envelope
                   ''Failed to upload script: 400: Invalid file type. Allowed: .txt, .md''
                   (isoformat w)), w)
          else
            (case save_uploaded_file f (OUTPUT_DIR lib) w of
               (Inl e, w1) \<Rightarrow>
                 (Inr (500, error_envelope (''Failed to upload script: '' @ str_exn e)
                              (isoformat w1)), w1)
             | (Inr script_path, w1) \<Rightarrow>
                 (Inr (200, success_envelope ''Script uploaded successfully''
                       (JObj [(''script_path'', JStr (''/output/'' @ path_name script_path)),
                              (''filename'', JStr (path_name script_path))])), w1)))"
proof (cases "filename f")
  case None
  then show ?thesis
    by (simp add: upload_script_endpoint_def serve_defs validate_upload_eq show_nat_400)
next
  case (Some name)
  show ?thesis
  proof (cases "name = [] \<or> py_lower (path_suffix name) \<notin> set [''.txt'', ''.md'']")
    case True
    with Some show ?thesis
      by (auto simp: upload_script_endpoint_def serve_defs validate_upload_eq show_nat_400)
  next
    case False
    obtain r1 w1 where s1: "save_uploaded_file f (OUTPUT_DIR lib) w = (r1, w1)"
      by (cases "save_uploaded_file f (OUTPUT_DIR lib) w")
    from Some False s1 show ?thesis
      by (cases r1) (simp_all add: upload_script_endpoint_def serve_defs validate_upload_eq)
  qed
qed

lemma serve_list:
  "serve lib GetListOutputs w =
     (case dir_listing w (OUTPUT_DIR lib) of
        Inl e \<Rightarrow>
          (Inr (500, error_envelope (''Failed to list outputs: '' @ str_exn e) (isoformat w)), w)
      | Inr paths \<Rightarrow>
          (case output_entries lib paths [] w of
             (Inl e, w') \<Rightarrow>
               (Inr (500, error_envelope (''Failed to list outputs: '' @ str_exn e)
                            (isoformat w')), w')
           | (Inr entries, w') \<Rightarrow>
               (Inr (200, success_envelope (''Found '' @ show_nat (length entries) @ '' files'')
                     (JObj [(''files'', JArr entries)])), w')))"
proof (cases "dir_listing w (OUTPUT_DIR lib)")
  case (Inl e)
  then show ?thesis by (simp add: list_outputs_def serve_defs)
next
  case (Inr paths)
  obtain r1 w1 where s1: "output_entries lib paths [] w = (r1, w1)"
    by (cases "output_entries lib paths [] w")
  from Inr s1 show ?thesis
    by (cases r1) (simp_all add: list_outputs_def serve_defs)
qed

lemma serve_delete:
  "serve lib (DeleteFile fname) w =
     (if \<not> is_relative_to (resolve (path_join (OUTPUT_DIR lib) fname)) (resolve (OUTPUT_DIR lib))
      then
        (Inr (500, error_envelope ''Failed to delete file: 400: Invalid file path''
                     (isoformat w)), w)
      else if path_join (OUTPUT_DIR lib) fname \<in> deny_stat w then
        (Inr (500, error_envelope ''Failed to delete file: Permission denied''
                     (isoformat w)), w)
      else
        (case files w (path_join (OUTPUT_DIR lib) fname) of
           None \<Rightarrow>
             (Inr (500, error_envelope ''Failed to delete file: 404: File not found''
                          (isoformat w)), w)
         | Some content \<Rightarrow>
             if path_join (OUTPUT_DIR lib) fname \<in> deny_unlink w then
               (Inr (500, error_envelope ''Failed to delete file: Permission denied''
                            (isoformat w)), w)
             else
               (Inr (200, success_envelope (''File '' @ fname @ '' deleted successfully'') JNull),
                w\<lparr>files := (files w)(path_join (OUTPUT_DIR lib) fname := None)\<rparr>)))"
  by (simp add: delete_file_def serve_defs path_exists_def unlink_def show_nat_400 show_nat_404
        Let_def split: option.split)

lemma serve_health:
  "serve lib GetHealth w =
     (Inr (200, JsonBody (JObj [(''status'', JStr ''healthy''),
                                (''timestamp'', JStr (isoformat w))])), w)"
  by (simp add: health_check_def now_isoformat_def io_bind_def io_return_def)

lemma serve_index:
  "serve lib GetIndex w =
     (Inr (200, FileBody (path_join (path_join (api_base_dir lib) ''frontend'') ''index.html'')), w)"
  by (simp add: index_def FRONTEND_DIR_def io_return_def)

lemma envelope_keys:
  "body_keys (error_envelope detail ts) = [''status'', ''message'', ''timestamp'']"
  "body_keys (success_envelope msg d) = [''status'', ''message'', ''data'']"
  by (simp_all add: body_keys_def)


text \<open>
  C5, as the sources have it. The reply to every request, in every world. Each of the six
  handlers that build an \<open>APIResponse\<close> (script, voice, video, upload, list, delete)
  answers with status 200 and a JSON object with exactly the keys \<open>status\<close>, \<open>message\<close>,
  \<open>data\<close> when its checks pass and its stage function and file operations return (a
  generated script that cannot be read back is reported inside \<open>data\<close>), and with status
  500 and the error envelope of \<open>http_exception_handler\<close>, a JSON object with exactly the
  keys \<open>status\<close>, \<open>message\<close>, \<open>timestamp\<close> and the status \<open>error\<close>, otherwise: on
  invalid input (an empty topic, an empty or too long text, a missing file name, an
  extension that is not allowed, a path outside the output directory, a file that does
  not exist) and when a stage function or file operation raises. The message of the error
  envelope is the prefix of the handler and the text of the exception. The health check
  answers with the keys \<open>status\<close> and \<open>timestamp\<close>; the index page is a file.
\<close>

theorem reply_shapes:
  "(serve lib (PostGenerateScript r) w =
     (if py_strip (topic r) = [] then
        (Inr (500, error_envelope ''Failed to generate script: 400: Topic cannot be empty''
                     (isoformat w)), w)
      else
        (case generate_script lib (topic r) (length_field r) (style_field r) w of
           (Inl e, w') \<Rightarrow>
             (Inr (500, error_envelope (''Failed to generate script: '' @ str_exn e)
                          (isoformat w')), w')
         | (Inr script_path, w') \<Rightarrow>
             (Inr (200, success_envelope ''Script generated successfully''
                   (JObj [(''script_path'', JStr (''/output/'' @ path_name script_path)),
                          (''script_content'',
                           JStr (case fst (read_file script_path w') of
                                   Inr content \<Rightarrow> content
                                 | Inl e \<Rightarrow> ''Script generated but content could not be read: ''
                                            @ str_exn e)),
                          (''filename'', JStr (path_name script_path))])), w'))))
   \<and> (serve lib (PostGenerateVoice v) w =
     (if py_strip (text_field v) = [] then
        (Inr (500, error_envelope ''Failed to generate voice: 400: Text cannot be empty''
                     (isoformat w)), w)
      else if length (text_field v) > 5000 then
        (Inr (500, error_envelope
                     ''Failed to generate voice: 400: Text too long (max 5000 characters)''
                     (isoformat w)), w)
      else
        (case generate_voice lib (text_field v) (voice_type_field v) (speed_field v) w of
           (Inl e, w') \<Rightarrow>
             (Inr (500, error_envelope (''Failed to generate voice: '' @ str_exn e)
                          (isoformat w')), w')
         | (Inr voice_path, w') \<Rightarrow>
             (Inr (200, success_envelope ''Voice generated successfully''
                   (JObj [(''voice_path'', JStr (''/output/'' @ path_name voice_path)),
                          (''filename'', JStr (path_name voice_path)),
                          (''duration'', JStr ''Unknown'')])), w'))))
   \<and> (serve lib (PostCreateVideo f style resolution) w =
     (case filename f of
        None \<Rightarrow>
          (Inr (500, error_envelope ''Failed to create video: 400: No file provided''
                       (isoformat w)), w)
      | Some name \<Rightarrow>
          if name = [] then
            (Inr (500, error_envelope ''Failed to create video: 400: No file provided''
                         (isoformat w)), w)
          else if py_lower (path_suffix name) \<notin> set [''.txt'', ''.md''] then
            (Inr (500, error_envelope
                   ''Failed to create video: 400: Invalid file type. Allowed: .txt, .md''
                   (isoformat w)), w)
          else
            (case save_uploaded_file f (OUTPUT_DIR lib) w of
               (Inl e, w1) \<Rightarrow>
                 (Inr (500, error_envelope (''Failed to create video: '' @ str_exn e)
                              (isoformat w1)), w1)
             | (Inr script_path, w1) \<Rightarrow>
                 (case create_video lib script_path (PStr style) resolution w1 of
                    (Inl e, w2) \<Rightarrow>
                      (Inr (500, error_envelope (''Failed to create video: '' @ str_exn e)
                                   (isoformat w2)), w2)
                  | (Inr video_path, w2) \<Rightarrow>
                      (case size_or_zero video_path w2 of
                         (Inl e, w3) \<Rightarrow>
                           (Inr (500, error_envelope (''Failed to create video: '' @ str_exn e)
                                        (isoformat w3)), w3)
                       | (Inr file_size, w3) \<Rightarrow>
                           (Inr (200, success_envelope ''Video created successfully''
                                 (JObj [(''video_path'', JStr (''/output/'' @ path_name video_path)),
                                        (''filename'', JStr (path_name video_path)),
                                        (''size'', JStr (format_1f lib file_size (1024 * 1024)
                                                        @ '' MB'')),
                                        (''duration'', JStr ''Unknown'')])), w3))))))
   \<and> (serve lib (PostUploadScript f) w =
     (case filename f of
        None \<Rightarrow>
          (Inr (500, error_envelope ''Failed to upload script: 400: No file provided''
                       (isoformat w)), w)
      | Some name \<Rightarrow>
          if name = [] then
            (Inr (500, error_envelope ''Failed to upload script: 400: No file provided''
                         (isoformat w)), w)
          else if py_lower (path_suffix name) \<notin> set [''.txt'', ''.md''] then
            (Inr (500, error_envelope
                   ''Failed to upload script: 400: Invalid file type. Allowed: .txt, .md''
                   (isoformat w)), w)
          else
            (case save_uploaded_file f (OUTPUT_DIR lib) w of
               (Inl e, w1) \<Rightarrow>
                 (Inr (500, error_envelope (''Failed to upload script: '' @ str_exn e)
                              (isoformat w1)), w1)
             | (Inr script_path, w1) \<Rightarrow>
                 (Inr (200, success_envelope ''Script uploaded successfully''
                       (JObj [(''script_path'', JStr (''/output/'' @ path_name script_path)),
                              (''filename'', JStr (path_name script_path))])), w1))))
   \<and> (serve lib GetListOutputs w =
     (case dir_listing w (OUTPUT_DIR lib) of
        Inl e \<Rightarrow>
          (Inr (500, error_envelope (''Failed to list outputs: '' @ str_exn e) (isoformat w)), w)
      | Inr paths \<Rightarrow>
          (case output_entries lib paths [] w of
             (Inl e, w') \<Rightarrow>
               (Inr (500, error_envelope (''Failed to list outputs: '' @ str_exn e)
                            (isoformat w')), w')
           | (Inr entries, w') \<Rightarrow>
               (Inr (200, success_envelope (''Found '' @ show_nat (length entries) @ '' files'')
                     (JObj [(''files'', JArr entries)])), w'))))
   \<and> (serve lib (DeleteFile fname) w =
     (if \<not> is_relative_to (resolve (path_join (OUTPUT_DIR lib) fname)) (resolve (OUTPUT_DIR lib))
      then
        (Inr (500, error_envelope ''Failed to delete file: 400: Invalid file path''
                     (isoformat w)), w)
      else if path_join (OUTPUT_DIR lib) fname \<in> deny_stat w then
        (Inr (500, error_envelope ''Failed to delete file: Permission denied''
                     (isoformat w)), w)
      else
        (case files w (path_join (OUTPUT_DIR lib) fname) of
           None \<Rightarrow>
             (Inr (500, error_envelope ''Failed to delete file: 404: File not found''
                          (isoformat w)), w)
         | Some content \<Rightarrow>
             if path_join (OUTPUT_DIR lib) fname \<in> deny_unlink w then
               (Inr (500, error_envelope ''Failed to delete file: Permission denied''
                            (isoformat w)), w)
             else
               (Inr (200, success_envelope (''File '' @ fname @ '' deleted successfully'') JNull),
                w\<lparr>files := (files w)(path_join (OUTPUT_DIR lib) fname := None)\<rparr>))))
   \<and> (serve lib GetHealth w =
     (Inr (200, JsonBody (JObj [(''status'', JStr ''healthy''),
                                (''timestamp'', JStr (isoformat w))])), w))
   \<and> (serve lib GetIndex w =
     (Inr (200, FileBody (path_join (path_join (api_base_dir lib) ''frontend'') ''index.html'')), w))
   \<and> body_keys (error_envelope detail ts) = [''status'', ''message'', ''timestamp'']
   \<and> body_keys (success_envelope msg d) = [''status'', ''message'', ''data'']"
  by (intro conjI serve_script serve_voice serve_video serve_upload serve_list serve_delete
        serve_health serve_index envelope_keys)

lemma failing_script:
  "generate_script failing_libs theme len style w =
     (Inl (Raised PlainException ''Failed to generate script: Connection refused''),
      w\<lparr>api_calls := api_calls w @ [''openai.ChatCompletion.create'']\<rparr>)"
  by (simp add: generate_script_def generate_script_body_def remote_call_def io_defs Let_def
        failing_libs_def demo_libs_def truthy_env_def)

lemma txt_upload_saved:
  "save_uploaded_file txt_upload ''/app/output'' demo_world =
     (Inr ''/app/output/upload_20240101_120000_01234567.TXT'',
      demo_world\<lparr>files := [''/app/output/upload_20240101_120000_01234567.TXT'' \<mapsto> ''hello'']\<rparr>)"
  by (simp add: save_uploaded_file_def generate_unique_filename_def now_strftime_def io_defs
        txt_upload_def demo_world_def path_join_def Let_def)

lemma txt_suffix: "py_lower (path_suffix ''notes.TXT'') = ''.txt''"
  by code_simp

lemma upload_name:
  "path_name ''/app/output/upload_20240101_120000_01234567.TXT''
     = ''upload_20240101_120000_01234567.TXT''"
  by code_simp

theorem reply_shapes_witness:
  "serve demo_libs (PostUploadScript txt_upload) demo_world =
     (Inr (200, success_envelope ''Script uploaded successfully''
             (JObj [(''script_path'', JStr ''/output/upload_20240101_120000_01234567.TXT''),
                    (''filename'', JStr ''upload_20240101_120000_01234567.TXT'')])),
      demo_world\<lparr>files := [''/app/output/upload_20240101_120000_01234567.TXT'' \<mapsto> ''hello'']\<rparr>)
   \<and> serve demo_libs (PostGenerateScript blank_script_request) demo_world =
     (Inr (500, error_envelope ''Failed to generate script: 400: Topic cannot be empty''
                  ''2024-01-01T12:00:00''), demo_world)
   \<and> serve failing_libs (PostGenerateScript demo_script_request) demo_world =
     (Inr (500, error_envelope
             ''Failed to generate script: Failed to generate script: Connection refused''
             ''2024-01-01T12:00:00''),
      demo_world\<lparr>api_calls := [''openai.ChatCompletion.create'']\<rparr>)"
  using reply_shapes [where lib = demo_libs and f = txt_upload and w = demo_world
          and r = blank_script_request]
        reply_shapes [where lib = failing_libs and w = demo_world and r = demo_script_request]
        blank_topic failing_script txt_upload_saved txt_suffix upload_name
  by (simp add: txt_upload_def OUTPUT_DIR_def path_join_def demo_libs_def failing_libs_def
        demo_script_request_def py_strip_def py_isspace_def demo_world_def)

text \<open>
  C5, as the claim words it, fails: the reply to an empty topic has the keys \<open>status\<close>,
  \<open>message\<close>, \<open>timestamp\<close> and no \<open>data\<close>; the reply of the health check has neither
  \<open>message\<close> nor \<open>data\<close>.
\<close>

theorem error_envelope_has_no_data_counterexample:
  "fst (serve demo_libs (PostGenerateScript blank_script_request) demo_world) =
     Inr (500, JsonBody (JObj
       [(''status'', JStr ''error''),
        (''message'', JStr ''Failed to generate script: 400: Topic cannot be empty''),
        (''timestamp'', JStr ''2024-01-01T12:00:00'')]))
   \<and> body_keys (JsonBody (JObj
       [(''status'', JStr ''error''),
        (''message'', JStr ''Failed to generate script: 400: Topic cannot be empty''),
        (''timestamp'', JStr ''2024-01-01T12:00:00'')])) \<noteq> [''status'', ''message'', ''data'']
   \<and> fst (serve demo_libs GetHealth demo_world) =
     Inr (200, JsonBody (JObj [(''status'', JStr ''healthy''),
                               (''timestamp'', JStr ''2024-01-01T12:00:00'')]))"
  using serve_script [of demo_libs blank_script_request demo_world]
    serve_health [of demo_libs demo_world] blank_topic
  by (simp add: body_keys_def demo_world_def)


section \<open>Properties of the failure handling\<close>




















lemma output_dir: "OUTPUT_DIR failing_libs = ''/app/output''"
  by (simp add: OUTPUT_DIR_def path_join_def failing_libs_def demo_libs_def)




end
